theory Spec2Isabelle
  imports Complex_Main "HOL-Library.AList"
begin

section \<open>JavaScript values\<close>

text \<open>
  Numbers are the mathematical reals extended by the two infinities and NaN, so that a
  division by zero or arithmetic on a missing property gives what JavaScript gives.
  The arithmetic of the controller is exact; the rounding of double precision is given
  separately below, and the wheel scale is evaluated both ways. Negative zero is
  identified with zero.
\<close>

datatype jsnum = Fin real | PInf | NInf | NaN

text \<open>
  Property values. Functions and objects are references, compared by identity.
\<close>

type_synonym callback = nat
type_synonym manager = nat

datatype val = VUndefined | VNull | VBool bool | VNum jsnum | VFun callback | VObj nat

text \<open>
  A plain object is the list of its own properties in insertion order, which is the
  order of \<open>Object.keys\<close>.
\<close>

type_synonym props = "(string \<times> val) list"

definition get :: "props \<Rightarrow> string \<Rightarrow> val" where
  \<comment> \<open>\<open>obj[key]\<close>: a missing property reads as \<open>undefined\<close>.\<close>
  "get obj key = (case map_of obj key of None \<Rightarrow> VUndefined | Some v \<Rightarrow> v)"

definition keys :: "props \<Rightarrow> string list" where
  "keys obj = map fst obj"

definition assign :: "props \<Rightarrow> props \<Rightarrow> props" where
  \<comment> \<open>\<open>Object.assign(target, source)\<close>: a property of the source overwrites the
      target's in place, a new one is appended. A \<open>null\<close> source is the empty list.\<close>
  "assign target source = fold (\<lambda>(k, v). AList.update k v) source target"

definition strict_neq :: "val \<Rightarrow> val \<Rightarrow> bool" where
  \<comment> \<open>\<open>a !== b\<close>: NaN differs from everything, itself included.\<close>
  "strict_neq a b = (a \<noteq> b \<or> a = VNum NaN)"

definition ToNumber :: "val \<Rightarrow> jsnum" where
  \<comment> \<open>The conversion applied by the arithmetic operators. Objects and functions are
      taken without a numeric \<open>valueOf\<close>.\<close>
  "ToNumber v = (case v of
       VUndefined \<Rightarrow> NaN
     | VNull \<Rightarrow> Fin 0
     | VBool b \<Rightarrow> Fin (if b then 1 else 0)
     | VNum n \<Rightarrow> n
     | VFun _ \<Rightarrow> NaN
     | VObj _ \<Rightarrow> NaN)"

fun js_neg :: "jsnum \<Rightarrow> jsnum" where
  "js_neg (Fin a) = Fin (- a)"
| "js_neg PInf = NInf"
| "js_neg NInf = PInf"
| "js_neg NaN = NaN"

fun js_sub :: "jsnum \<Rightarrow> jsnum \<Rightarrow> jsnum" where
  "js_sub (Fin a) (Fin b) = Fin (a - b)"
| "js_sub NaN _ = NaN"
| "js_sub _ NaN = NaN"
| "js_sub PInf PInf = NaN"
| "js_sub NInf NInf = NaN"
| "js_sub PInf _ = PInf"
| "js_sub NInf _ = NInf"
| "js_sub (Fin a) PInf = NInf"
| "js_sub (Fin a) NInf = PInf"


fun js_mul :: "jsnum \<Rightarrow> jsnum \<Rightarrow> jsnum" where
  "js_mul (Fin a) (Fin b) = Fin (a * b)"
| "js_mul NaN _ = NaN"
| "js_mul _ NaN = NaN"
| "js_mul PInf (Fin b) = (if b = 0 then NaN else if 0 < b then PInf else NInf)"
| "js_mul NInf (Fin b) = (if b = 0 then NaN else if 0 < b then NInf else PInf)"
| "js_mul (Fin a) PInf = (if a = 0 then NaN else if 0 < a then PInf else NInf)"
| "js_mul (Fin a) NInf = (if a = 0 then NaN else if 0 < a then NInf else PInf)"
| "js_mul PInf PInf = PInf"
| "js_mul NInf NInf = PInf"
| "js_mul PInf NInf = NInf"
| "js_mul NInf PInf = NInf"

fun js_div :: "jsnum \<Rightarrow> jsnum \<Rightarrow> jsnum" where
  "js_div (Fin a) (Fin b) =
     (if b \<noteq> 0 then Fin (a / b)
      else if a = 0 then NaN else if 0 < a then PInf else NInf)"
| "js_div NaN _ = NaN"
| "js_div _ NaN = NaN"
| "js_div (Fin a) PInf = Fin 0"
| "js_div (Fin a) NInf = Fin 0"
| "js_div PInf (Fin b) = (if 0 \<le> b then PInf else NInf)"
| "js_div NInf (Fin b) = (if 0 \<le> b then NInf else PInf)"
| "js_div PInf PInf = NaN"
| "js_div PInf NInf = NaN"
| "js_div NInf PInf = NaN"
| "js_div NInf NInf = NaN"

fun js_abs :: "jsnum \<Rightarrow> jsnum" where
  "js_abs (Fin a) = Fin \<bar>a\<bar>"
| "js_abs PInf = PInf"
| "js_abs NInf = PInf"
| "js_abs NaN = NaN"

fun js_gt :: "jsnum \<Rightarrow> jsnum \<Rightarrow> bool" where
  "js_gt (Fin a) (Fin b) = (b < a)"
| "js_gt NaN _ = False"
| "js_gt _ NaN = False"
| "js_gt PInf PInf = False"
| "js_gt PInf _ = True"
| "js_gt NInf _ = False"
| "js_gt (Fin a) PInf = False"
| "js_gt (Fin a) NInf = True"

fun js_max :: "jsnum \<Rightarrow> jsnum \<Rightarrow> jsnum" where
  "js_max (Fin a) (Fin b) = Fin (max a b)"
| "js_max NaN _ = NaN"
| "js_max _ NaN = NaN"
| "js_max PInf _ = PInf"
| "js_max _ PInf = PInf"
| "js_max NInf b = b"
| "js_max a NInf = a"

fun js_min :: "jsnum \<Rightarrow> jsnum \<Rightarrow> jsnum" where
  "js_min (Fin a) (Fin b) = Fin (min a b)"
| "js_min NaN _ = NaN"
| "js_min _ NaN = NaN"
| "js_min NInf _ = NInf"
| "js_min _ NInf = NInf"
| "js_min PInf b = b"
| "js_min a PInf = a"

subsection \<open>Double precision\<close>






section \<open>Gesture events\<close>

text \<open>
  The event object of the gesture recognizer (hammer.js), with the fields the
  controller reads. The recognizer is an external library: its events carry finite
  numbers and boolean modifier flags.
\<close>

record src_event =
  metaKey :: bool
  altKey :: bool
  ctrlKey :: bool
  shiftKey :: bool
  keyCode :: nat

record event =
  ev_type :: string
  offsetCenter :: "real \<times> real"
  deltaX :: real
  deltaY :: real
  delta :: real
  scale :: real
  rotation :: real
  rightButton :: bool
  srcEvent :: src_event

section \<open>The ViewportState class\<close>

text \<open>
  The controller receives the ViewportState class as a constructor argument and only
  calls its constructor and methods. The class is therefore a record of functions over
  an instance type \<open>'vs\<close>; its methods are pure and return a new instance. The
  constructor and the methods are total functions: a class whose constructor or methods
  raise is outside this model.
  \<open>getViewport\<close> is optional (the controller tests for it); \<open>instanceofMapState\<close>
  is the test \<open>viewState instanceof MapState\<close>.
\<close>

record 'vs viewport_state_class =
  new_ViewportState :: "props \<Rightarrow> 'vs"
  getViewportProps :: "'vs \<Rightarrow> props"
  getInteractiveState :: "'vs \<Rightarrow> props"
  getViewport :: "('vs \<Rightarrow> val) option"
  instanceofMapState :: "'vs \<Rightarrow> bool"
  panStart :: "real \<times> real \<Rightarrow> 'vs \<Rightarrow> 'vs"
  pan :: "real \<times> real \<Rightarrow> 'vs \<Rightarrow> 'vs"
  panEnd :: "'vs \<Rightarrow> 'vs"
  rotateStart :: "real \<times> real \<Rightarrow> 'vs \<Rightarrow> 'vs"
  rotate_vs :: "jsnum \<Rightarrow> jsnum option \<Rightarrow> 'vs \<Rightarrow> 'vs"
  rotateEnd :: "'vs \<Rightarrow> 'vs"
  zoomStart :: "real \<times> real \<Rightarrow> 'vs \<Rightarrow> 'vs"
  zoom :: "real \<times> real \<Rightarrow> real \<Rightarrow> 'vs \<Rightarrow> 'vs"
  zoomEnd :: "'vs \<Rightarrow> 'vs"
  zoomIn :: "'vs \<Rightarrow> 'vs"
  zoomOut :: "'vs \<Rightarrow> 'vs"
  moveLeft :: "'vs \<Rightarrow> 'vs"
  moveRight :: "'vs \<Rightarrow> 'vs"
  moveUp :: "'vs \<Rightarrow> 'vs"
  moveDown :: "'vs \<Rightarrow> 'vs"
  rotateLeft :: "'vs \<Rightarrow> 'vs"
  rotateRight :: "'vs \<Rightarrow> 'vs"
  rotateUp :: "'vs \<Rightarrow> 'vs"
  rotateDown :: "'vs \<Rightarrow> 'vs"

section \<open>The controller\<close>

text \<open>
  The options object. The recognised options are typed as the interface documents
  them: callbacks are functions, the event manager is an object, the toggles are
  booleans. \<open>None\<close> is an omitted property (\<open>undefined\<close>); for \<open>onStateChange\<close> and
  \<open>eventManager\<close>, whose destructuring default only replaces \<open>undefined\<close>,
  \<open>Some None\<close> is an explicit \<open>null\<close>. \<open>opt_viewProps\<close> holds every other own
  property of the object (width, height, zoom, ...).
\<close>

record options =
  opt_onViewportChange :: "callback option"
  opt_onStateChange :: "callback option option"
  opt_eventManager :: "manager option option"
  opt_scrollZoom :: "bool option"
  opt_dragPan :: "bool option"
  opt_dragRotate :: "bool option"
  opt_doubleClickZoom :: "bool option"
  opt_touchZoom :: "bool option"
  opt_touchRotate :: "bool option"
  opt_keyboard :: "bool option"
  opt_viewProps :: props

definition toggle_prop :: "string \<Rightarrow> bool option \<Rightarrow> props" where
  "toggle_prop key t = (case t of None \<Rightarrow> [] | Some b \<Rightarrow> [(key, VBool b)])"

definition options_obj :: "options \<Rightarrow> props" where
  \<comment> \<open>The options object as a plain object, as \<open>Object.assign\<close> reads it.\<close>
  "options_obj opts =
     (case opt_onViewportChange opts of None \<Rightarrow> []
        | Some f \<Rightarrow> [(''onViewportChange'', VFun f)]) @
     (case opt_onStateChange opts of None \<Rightarrow> []
        | Some None \<Rightarrow> [(''onStateChange'', VNull)]
        | Some (Some f) \<Rightarrow> [(''onStateChange'', VFun f)]) @
     (case opt_eventManager opts of None \<Rightarrow> []
        | Some None \<Rightarrow> [(''eventManager'', VNull)]
        | Some (Some m) \<Rightarrow> [(''eventManager'', VObj m)]) @
     toggle_prop ''scrollZoom'' (opt_scrollZoom opts) @
     toggle_prop ''dragPan'' (opt_dragPan opts) @
     toggle_prop ''dragRotate'' (opt_dragRotate opts) @
     toggle_prop ''doubleClickZoom'' (opt_doubleClickZoom opts) @
     toggle_prop ''touchZoom'' (opt_touchZoom opts) @
     toggle_prop ''touchRotate'' (opt_touchRotate opts) @
     toggle_prop ''keyboard'' (opt_keyboard opts) @
     opt_viewProps opts"

text \<open>
  The fields of a ViewportControls instance. \<open>priv_state\<close> and \<open>priv_events\<close> are
  \<open>_state\<close> and \<open>_events\<close>; a \<open>null\<close> object is the empty list. For the callbacks
  and the event manager \<open>None\<close> is \<open>null\<close> or \<open>undefined\<close>.
\<close>

record 'vs controls =
  ViewportState :: "'vs viewport_state_class"
  viewState :: "'vs option"
  viewStateProps :: props
  eventManager :: "manager option"
  priv_events :: "(string \<times> bool) list"
  priv_state :: props
  events :: "string list"
  onViewportChange :: "callback option"
  onStateChange :: "callback option"
  scrollZoom :: bool
  dragPan :: bool
  dragRotate :: bool
  doubleClickZoom :: bool
  touchZoom :: bool
  touchRotate :: bool
  keyboard :: bool

text \<open>
  What the controller does to the outside: the callbacks it invokes, with their
  arguments at the time of the call, and the handler registrations on event managers.
  A callback is recorded, not run: it does not call back into the controller.
  A registration state is the set of (manager, event name) pairs on which
  \<open>handleEvent\<close> is registered.
\<close>

datatype call = ViewportChange callback props val | StateChange callback props

type_synonym registrations = "(manager \<times> string) set"

definition eventManager_on :: "manager \<Rightarrow> string \<Rightarrow> registrations \<Rightarrow> registrations" where
  "eventManager_on m eventName regs = insert (m, eventName) regs"

definition eventManager_off :: "manager \<Rightarrow> string \<Rightarrow> registrations \<Rightarrow> registrations" where
  "eventManager_off m eventName regs = regs - {(m, eventName)}"

datatype error = AssertionError

subsection \<open>Constants\<close>

definition linear_easing :: callback where
  \<comment> \<open>The function \<open>t => t\<close> of the module, as a reference.\<close>
  "linear_easing = 0"

definition linear_interpolator :: nat where
  \<comment> \<open>The \<open>LinearInterpolator\<close> instance of the module, as a reference.\<close>
  "linear_interpolator = 0"

definition TRANSITION_EVENTS_BREAK :: val where
  \<comment> \<open>Modelled from the spec: the interruption policy BREAK of the enumeration
      BREAK, IGNORE, SNAP, declared in lib/transition-manager, which is not among the
      sources. Only its being a fixed value matters here.\<close>
  "TRANSITION_EVENTS_BREAK = VNum (Fin 1)"

definition NO_TRANSITION_PROPS :: props where
  "NO_TRANSITION_PROPS = [(''transitionDuration'', VNum (Fin 0))]"

definition LINEAR_TRANSITION_PROPS :: props where
  "LINEAR_TRANSITION_PROPS =
     [(''transitionDuration'', VNum (Fin 300)),
      (''transitionEasing'', VFun linear_easing),
      (''transitionInterpolator'', VObj linear_interpolator),
      (''transitionInterruption'', TRANSITION_EVENTS_BREAK)]"

definition PITCH_MOUSE_THRESHOLD :: real where
  "PITCH_MOUSE_THRESHOLD = 5"

definition PITCH_ACCEL :: real where
  "PITCH_ACCEL = 1.2"

definition ZOOM_ACCEL :: real where
  "ZOOM_ACCEL = 0.01"

definition EVENT_TYPES_WHEEL :: "string list" where
  "EVENT_TYPES_WHEEL = [''wheel'']"

definition EVENT_TYPES_PAN :: "string list" where
  "EVENT_TYPES_PAN = [''panstart'', ''panmove'', ''panend'']"

definition EVENT_TYPES_PINCH :: "string list" where
  "EVENT_TYPES_PINCH = [''pinchstart'', ''pinchmove'', ''pinchend'']"

definition EVENT_TYPES_DOUBLE_TAP :: "string list" where
  "EVENT_TYPES_DOUBLE_TAP = [''doubletap'']"

definition EVENT_TYPES_KEYBOARD :: "string list" where
  "EVENT_TYPES_KEYBOARD = [''keydown'']"

subsection \<open>Event utilities\<close>

definition getCenter :: "event \<Rightarrow> real \<times> real" where
  "getCenter e = offsetCenter e"

definition isFunctionKeyPressed :: "event \<Rightarrow> bool" where
  "isFunctionKeyPressed e =
     (metaKey (srcEvent e) \<or> altKey (srcEvent e) \<or> ctrlKey (srcEvent e) \<or> shiftKey (srcEvent e))"

definition isDragging :: "'vs controls \<Rightarrow> val" where
  "isDragging c = get (priv_state c) ''isDragging''"

subsection \<open>Options and event registration\<close>

definition toggleEvents ::
  "string list \<Rightarrow> bool \<Rightarrow> 'vs controls \<times> registrations \<Rightarrow> 'vs controls \<times> registrations" where
  "toggleEvents eventNames enabled cr =
     (case eventManager (fst cr) of
        None \<Rightarrow> cr
      | Some m \<Rightarrow>
          fold (\<lambda>eventName (c, regs).
                  if map_of (priv_events c) eventName \<noteq> Some enabled
                  then (c\<lparr>priv_events := AList.update eventName enabled (priv_events c)\<rparr>,
                        if enabled then eventManager_on m eventName regs
                        else eventManager_off m eventName regs)
                  else (c, regs))
               eventNames cr)"

definition default_to :: "'a option \<Rightarrow> 'a \<Rightarrow> 'a" where
  \<comment> \<open>A destructuring default: it replaces an omitted property only.\<close>
  "default_to v d = (case v of None \<Rightarrow> d | Some x \<Rightarrow> x)"

definition setOptions ::
  "options \<Rightarrow> 'vs controls \<times> registrations \<Rightarrow> 'vs controls \<times> registrations" where
  "setOptions opts cr =
     (let c = fst cr; regs = snd cr;
          onViewportChange' = opt_onViewportChange opts;
          onStateChange' = default_to (opt_onStateChange opts) (onStateChange c);
          eventManager' = default_to (opt_eventManager opts) (eventManager c);
          scrollZoom' = default_to (opt_scrollZoom opts) True;
          dragPan' = default_to (opt_dragPan opts) True;
          dragRotate' = default_to (opt_dragRotate opts) True;
          doubleClickZoom' = default_to (opt_doubleClickZoom opts) True;
          touchZoom' = default_to (opt_touchZoom opts) True;
          touchRotate' = default_to (opt_touchRotate opts) False;
          keyboard' = default_to (opt_keyboard opts) True;
          c1 = c\<lparr>onViewportChange := onViewportChange',
                 onStateChange := onStateChange',
                 viewStateProps := options_obj opts\<rparr>;
          cr2 = (if eventManager c1 \<noteq> eventManager'
                 then toggleEvents (events c1) True
                        (c1\<lparr>eventManager := eventManager', priv_events := []\<rparr>, regs)
                 else (c1, regs));
          isInteractive = (onViewportChange (fst cr2) \<noteq> None);
          cr3 = toggleEvents EVENT_TYPES_WHEEL (isInteractive \<and> scrollZoom') cr2;
          cr4 = toggleEvents EVENT_TYPES_PAN (isInteractive \<and> (dragPan' \<or> dragRotate')) cr3;
          cr5 = toggleEvents EVENT_TYPES_PINCH (isInteractive \<and> (touchZoom' \<or> touchRotate')) cr4;
          cr6 = toggleEvents EVENT_TYPES_DOUBLE_TAP (isInteractive \<and> doubleClickZoom') cr5;
          cr7 = toggleEvents EVENT_TYPES_KEYBOARD (isInteractive \<and> keyboard') cr6
      in ((fst cr7)\<lparr>scrollZoom := scrollZoom',
                     dragPan := dragPan',
                     dragRotate := dragRotate',
                     doubleClickZoom := doubleClickZoom',
                     touchZoom := touchZoom',
                     touchRotate := touchRotate',
                     keyboard := keyboard'\<rparr>,
          snd cr7))"

definition empty_options :: options where
  \<comment> \<open>The object \<open>{}\<close>, the default of the constructor's second parameter.\<close>
  "empty_options =
     \<lparr>opt_onViewportChange = None, opt_onStateChange = None, opt_eventManager = None,
      opt_scrollZoom = None, opt_dragPan = None, opt_dragRotate = None,
      opt_doubleClickZoom = None, opt_touchZoom = None, opt_touchRotate = None,
      opt_keyboard = None, opt_viewProps = []\<rparr>"

definition initial_controls :: "'vs viewport_state_class \<Rightarrow> 'vs controls" where
  \<comment> \<open>The fields as the constructor assigns them before it calls \<open>setOptions\<close>.
      Fields not yet assigned read as \<open>undefined\<close>, which is falsy.\<close>
  "initial_controls ViewportState' =
     \<lparr>ViewportState = ViewportState',
      viewState = None,
      viewStateProps = [],
      eventManager = None,
      priv_events = [],
      priv_state = [(''isDragging'', VBool False)],
      events = [],
      onViewportChange = None,
      onStateChange = None,
      scrollZoom = False, dragPan = False, dragRotate = False,
      doubleClickZoom = False, touchZoom = False, touchRotate = False,
      keyboard = False\<rparr>"

definition new_ViewportControls ::
  "'vs viewport_state_class option \<Rightarrow> options \<Rightarrow> registrations
     \<Rightarrow> error + 'vs controls \<times> registrations" where
  \<comment> \<open>The constructor; \<open>assert(ViewportState)\<close> fails on a missing class.\<close>
  "new_ViewportControls cls opts regs =
     (case cls of
        None \<Rightarrow> Inl AssertionError
      | Some ViewportState' \<Rightarrow> Inr (setOptions opts (initial_controls ViewportState', regs)))"

subsection \<open>Callback utilities\<close>

definition setState :: "props \<Rightarrow> 'vs controls \<Rightarrow> 'vs controls \<times> call list" where
  "setState newState c =
     (let c' = c\<lparr>priv_state := assign (priv_state c) newState\<rparr>
      in (c', case onStateChange c' of
                None \<Rightarrow> []
              | Some f \<Rightarrow> [StateChange f (priv_state c')]))"

definition viewport_changed :: "props \<Rightarrow> props \<Rightarrow> bool" where
  \<comment> \<open>\<open>Object.keys(newViewport).some(key => oldViewport[key] !== newViewport[key])\<close>\<close>
  "viewport_changed oldViewport newViewport =
     list_ex (\<lambda>key. strict_neq (get oldViewport key) (get newViewport key)) (keys newViewport)"

text \<open>
  The handlers run on \<open>this.viewState\<close>, which \<open>handleEvent\<close> has just constructed;
  it is the argument \<open>vs\<close> of \<open>updateViewport\<close> and of every handler. A handler
  returns its return value, the controller after it, and the callbacks it invoked, in
  order. \<open>updateViewport\<close> has no return statement: it returns \<open>undefined\<close>.
\<close>

definition updateViewport ::
  "'vs \<Rightarrow> props \<Rightarrow> props \<Rightarrow> 'vs \<Rightarrow> 'vs controls \<Rightarrow> val \<times> 'vs controls \<times> call list" where
  "updateViewport newViewportState extraProps extraState vs c =
     (let cls = ViewportState c;
          oldViewport = getViewportProps cls vs;
          newViewport = assign (assign [] (getViewportProps cls newViewportState)) extraProps;
          calls1 =
            (case onViewportChange c of
               None \<Rightarrow> []
             | Some f \<Rightarrow>
                 if viewport_changed oldViewport newViewport
                 then [ViewportChange f newViewport
                         (case getViewport cls of None \<Rightarrow> VNull | Some g \<Rightarrow> g vs)]
                 else []);
          (c', calls2) =
            setState (assign (assign [] (getInteractiveState cls newViewportState)) extraState) c
      in (VUndefined, c', calls1 @ calls2))"

subsection \<open>Event handlers\<close>

definition onPanStart :: "event \<Rightarrow> 'vs \<Rightarrow> 'vs controls \<Rightarrow> val \<times> 'vs controls \<times> call list" where
  "onPanStart e vs c =
     (let cls = ViewportState c;
          pos = getCenter e;
          newViewportState = rotateStart cls pos (panStart cls pos vs)
      in updateViewport newViewportState NO_TRANSITION_PROPS [(''isDragging'', VBool True)] vs c)"

definition onPanEnd :: "event \<Rightarrow> 'vs \<Rightarrow> 'vs controls \<Rightarrow> val \<times> 'vs controls \<times> call list" where
  "onPanEnd e vs c =
     (let cls = ViewportState c;
          newViewportState = rotateEnd cls (panEnd cls vs)
      in updateViewport newViewportState [] [(''isDragging'', VBool False)] vs c)"

definition onPanMove :: "event \<Rightarrow> 'vs \<Rightarrow> 'vs controls \<Rightarrow> val \<times> 'vs controls \<times> call list" where
  "onPanMove e vs c =
     (if \<not> dragPan c then (VBool False, c, [])
      else let cls = ViewportState c;
               pos = getCenter e;
               newViewportState = pan cls pos vs
           in updateViewport newViewportState NO_TRANSITION_PROPS [(''isDragging'', VBool True)] vs c)"

definition onPanRotateStandard ::
  "event \<Rightarrow> 'vs \<Rightarrow> 'vs controls \<Rightarrow> val \<times> 'vs controls \<times> call list" where
  "onPanRotateStandard e vs c =
     (let cls = ViewportState c;
          width = ToNumber (get (getViewportProps cls vs) ''width'');
          height = ToNumber (get (getViewportProps cls vs) ''height'');
          deltaScaleX = js_div (Fin (deltaX e)) width;
          deltaScaleY = js_div (Fin (deltaY e)) height;
          newViewportState = rotate_vs cls deltaScaleX (Some deltaScaleY) vs
      in updateViewport newViewportState NO_TRANSITION_PROPS [(''isDragging'', VBool True)] vs c)"

definition onPanRotateMap_deltaScaleY :: "event \<Rightarrow> jsnum \<Rightarrow> jsnum" where
  \<comment> \<open>The value of \<open>deltaScaleY\<close> that \<open>_onPanRotateMap\<close> passes to \<open>rotate\<close>, from the
      event and the viewport's \<open>height\<close>.\<close>
  "onPanRotateMap_deltaScaleY e height =
     (let centerY = snd (getCenter e);
          startY = centerY - deltaY e;
          deltaScaleY =
            (if 0 < deltaY e
             then (if js_gt (js_abs (js_sub height (Fin startY))) (Fin PITCH_MOUSE_THRESHOLD)
                   then js_mul (js_div (Fin (deltaY e)) (js_sub (Fin startY) height))
                               (Fin PITCH_ACCEL)
                   else Fin 0)
             else if deltaY e < 0
             then (if PITCH_MOUSE_THRESHOLD < startY
                   then Fin (1 - centerY / startY)
                   else Fin 0)
             else Fin 0)
      in js_min (Fin 1) (js_max (Fin (- 1)) deltaScaleY))"

definition onPanRotateMap ::
  "event \<Rightarrow> 'vs \<Rightarrow> 'vs controls \<Rightarrow> val \<times> 'vs controls \<times> call list" where
  "onPanRotateMap e vs c =
     (let cls = ViewportState c;
          width = ToNumber (get (getViewportProps cls vs) ''width'');
          height = ToNumber (get (getViewportProps cls vs) ''height'');
          deltaScaleX = js_div (Fin (deltaX e)) width;
          deltaScaleY = onPanRotateMap_deltaScaleY e height;
          newViewportState = rotate_vs cls deltaScaleX (Some deltaScaleY) vs
      in updateViewport newViewportState NO_TRANSITION_PROPS [(''isDragging'', VBool True)] vs c)"

definition onPanRotate :: "event \<Rightarrow> 'vs \<Rightarrow> 'vs controls \<Rightarrow> val \<times> 'vs controls \<times> call list" where
  "onPanRotate e vs c =
     (if \<not> dragRotate c then (VBool False, c, [])
      else if instanceofMapState (ViewportState c) vs then onPanRotateMap e vs c
      else onPanRotateStandard e vs c)"

definition onPan :: "event \<Rightarrow> 'vs \<Rightarrow> 'vs controls \<Rightarrow> val \<times> 'vs controls \<times> call list" where
  "onPan e vs c =
     (if isFunctionKeyPressed e \<or> rightButton e then onPanRotate e vs c else onPanMove e vs c)"

definition onWheel_scale :: "real \<Rightarrow> real" where
  \<comment> \<open>The scale that \<open>_onWheel\<close> computes from the event's \<open>delta\<close>, in
      exact arithmetic.\<close>
  "onWheel_scale delta' =
     (let scale' = 2 / (1 + exp (- \<bar>delta' * ZOOM_ACCEL\<bar>))
      in if delta' < 0 \<and> scale' \<noteq> 0 then 1 / scale' else scale')"


definition onWheel :: "event \<Rightarrow> 'vs \<Rightarrow> 'vs controls \<Rightarrow> val \<times> 'vs controls \<times> call list" where
  "onWheel e vs c =
     (if \<not> scrollZoom c then (VBool False, c, [])
      else let cls = ViewportState c;
               pos = getCenter e;
               newViewportState = zoom cls pos (onWheel_scale (delta e)) vs
           in updateViewport newViewportState NO_TRANSITION_PROPS [] vs c)"

definition onPinchStart :: "event \<Rightarrow> 'vs \<Rightarrow> 'vs controls \<Rightarrow> val \<times> 'vs controls \<times> call list" where
  "onPinchStart e vs c =
     (let cls = ViewportState c;
          pos = getCenter e;
          newViewportState = rotateStart cls pos (zoomStart cls pos vs);
          c1 = c\<lparr>priv_state :=
                   AList.update ''startPinchRotation'' (VNum (Fin (rotation e))) (priv_state c)\<rparr>
      in updateViewport newViewportState NO_TRANSITION_PROPS [(''isDragging'', VBool True)] vs c1)"

definition onPinch :: "event \<Rightarrow> 'vs \<Rightarrow> 'vs controls \<Rightarrow> val \<times> 'vs controls \<times> call list" where
  "onPinch e vs c =
     (if \<not> touchZoom c \<and> \<not> touchRotate c then (VBool False, c, [])
      else let cls = ViewportState c;
               zoomed = (if touchZoom c then zoom cls (getCenter e) (scale e) vs else vs);
               startPinchRotation = ToNumber (get (priv_state c) ''startPinchRotation'');
               newViewportState =
                 (if touchRotate c
                  then rotate_vs cls
                         (js_div (js_neg (js_sub (Fin (rotation e)) startPinchRotation)) (Fin 180))
                         None zoomed
                  else zoomed)
           in updateViewport newViewportState NO_TRANSITION_PROPS [(''isDragging'', VBool True)] vs c)"

definition onPinchEnd :: "event \<Rightarrow> 'vs \<Rightarrow> 'vs controls \<Rightarrow> val \<times> 'vs controls \<times> call list" where
  "onPinchEnd e vs c =
     (let cls = ViewportState c;
          newViewportState = rotateEnd cls (zoomEnd cls vs);
          c1 = c\<lparr>priv_state :=
                   AList.update ''startPinchRotation'' (VNum (Fin 0)) (priv_state c)\<rparr>
      in updateViewport newViewportState [] [(''isDragging'', VBool False)] vs c1)"

definition onDoubleTap :: "event \<Rightarrow> 'vs \<Rightarrow> 'vs controls \<Rightarrow> val \<times> 'vs controls \<times> call list" where
  "onDoubleTap e vs c =
     (if \<not> doubleClickZoom c then (VBool False, c, [])
      else let cls = ViewportState c;
               pos = getCenter e;
               isZoomOut = isFunctionKeyPressed e;
               newViewportState = zoom cls pos (if isZoomOut then 0.5 else 2) vs
           in updateViewport newViewportState LINEAR_TRANSITION_PROPS [] vs c)"

definition onKeyDown :: "event \<Rightarrow> 'vs \<Rightarrow> 'vs controls \<Rightarrow> val \<times> 'vs controls \<times> call list" where
  "onKeyDown e vs c =
     (if \<not> keyboard c then (VBool False, c, [])
      else let cls = ViewportState c;
               funcKey = isFunctionKeyPressed e;
               code = keyCode (srcEvent e)
           in if code = 189
              then updateViewport (if funcKey then zoomOut cls (zoomOut cls vs) else zoomOut cls vs)
                     LINEAR_TRANSITION_PROPS [] vs c
              else if code = 187
              then updateViewport (if funcKey then zoomIn cls (zoomIn cls vs) else zoomIn cls vs)
                     LINEAR_TRANSITION_PROPS [] vs c
              else if code = 37
              then updateViewport (if funcKey then rotateLeft cls vs else moveLeft cls vs)
                     LINEAR_TRANSITION_PROPS [] vs c
              else if code = 39
              then updateViewport (if funcKey then rotateRight cls vs else moveRight cls vs)
                     LINEAR_TRANSITION_PROPS [] vs c
              else if code = 38
              then updateViewport (if funcKey then rotateUp cls vs else moveUp cls vs)
                     LINEAR_TRANSITION_PROPS [] vs c
              else if code = 40
              then updateViewport (if funcKey then rotateDown cls vs else moveDown cls vs)
                     LINEAR_TRANSITION_PROPS [] vs c
              else (VBool False, c, []))"

definition fresh_viewState :: "'vs controls \<Rightarrow> 'vs" where
  \<comment> \<open>\<open>new ViewportState(Object.assign({}, this.viewStateProps, this._state))\<close>\<close>
  "fresh_viewState c =
     new_ViewportState (ViewportState c) (assign (assign [] (viewStateProps c)) (priv_state c))"

definition handleEvent :: "event \<Rightarrow> 'vs controls \<Rightarrow> val \<times> 'vs controls \<times> call list" where
  "handleEvent e c =
     (let vs = fresh_viewState c;
          c1 = c\<lparr>viewState := Some vs\<rparr>
      in if ev_type e = ''panstart'' then onPanStart e vs c1
         else if ev_type e = ''panmove'' then onPan e vs c1
         else if ev_type e = ''panend'' then onPanEnd e vs c1
         else if ev_type e = ''pinchstart'' then onPinchStart e vs c1
         else if ev_type e = ''pinchmove'' then onPinch e vs c1
         else if ev_type e = ''pinchend'' then onPinchEnd e vs c1
         else if ev_type e = ''doubletap'' then onDoubleTap e vs c1
         else if ev_type e = ''wheel'' then onWheel e vs c1
         else if ev_type e = ''keydown'' then onKeyDown e vs c1
         else (VBool False, c1, []))"

text \<open>
  A sequence of events, delivered one after the other; the callbacks invoked
  accumulate in order.
\<close>

fun handleEvents :: "event list \<Rightarrow> 'vs controls \<Rightarrow> 'vs controls \<times> call list" where
  "handleEvents [] c = (c, [])"
| "handleEvents (e # es) c =
     (case handleEvent e c of
        (r, c', calls) \<Rightarrow> (case handleEvents es c' of (c'', calls') \<Rightarrow> (c'', calls @ calls')))"

subsection \<open>Observations\<close>

fun viewport_changes :: "call list \<Rightarrow> props list" where
  \<comment> \<open>The first arguments of the \<open>onViewportChange\<close> calls, in order.\<close>
  "viewport_changes [] = []"
| "viewport_changes (ViewportChange f newViewport viewport # calls) =
     newViewport # viewport_changes calls"
| "viewport_changes (StateChange f st # calls) = viewport_changes calls"

fun state_changes :: "call list \<Rightarrow> props list" where
  \<comment> \<open>The arguments of the \<open>onStateChange\<close> calls, in order.\<close>
  "state_changes [] = []"
| "state_changes (ViewportChange f newViewport viewport # calls) = state_changes calls"
| "state_changes (StateChange f st # calls) = st # state_changes calls"

definition GESTURE_EVENTS :: "string list" where
  \<comment> \<open>Every event name of \<open>EVENT_TYPES\<close>.\<close>
  "GESTURE_EVENTS =
     EVENT_TYPES_WHEEL @ EVENT_TYPES_PAN @ EVENT_TYPES_PINCH @ EVENT_TYPES_DOUBLE_TAP @
     EVENT_TYPES_KEYBOARD"

definition events_tracked :: "'vs controls \<Rightarrow> registrations \<Rightarrow> bool" where
  \<comment> \<open>The bookkeeping of \<open>toggleEvents\<close> is right: whatever \<open>_events\<close> records for
      an event name is the registration of \<open>handleEvent\<close> on the current manager.\<close>
  "events_tracked c regs =
     (case eventManager c of
        None \<Rightarrow> True
      | Some m \<Rightarrow>
          list_all (\<lambda>eventName.
                      ((m, eventName) \<in> regs) = (map_of (priv_events c) eventName = Some True))
                   (map fst (priv_events c)))"

definition pan_disabled :: "'vs controls \<Rightarrow> event \<Rightarrow> bool" where
  \<comment> \<open>The toggle that \<open>_onPan\<close> consults for this event is off.\<close>
  "pan_disabled c e =
     (if isFunctionKeyPressed e \<or> rightButton e then \<not> dragRotate c else \<not> dragPan c)"

section \<open>The map-like ViewportState of the specification\<close>

text \<open>
  \<open>MapState\<close> (\<open>./map-state\<close>) is imported by the controller but is not among the
  sources. The scenarios on zoom values need its \<open>zoom\<close>; what follows is taken from
  the specification's sections 3 and 4.2.
\<close>

record map_state =
  viewportProps :: props
  interactiveState :: props

definition VIEWPORT_PROPS_KEYS :: "string list" where
  \<comment> \<open>Modelled from the spec: the fields of ViewportProps of the map-like variant.\<close>
  "VIEWPORT_PROPS_KEYS =
     [''longitude'', ''latitude'', ''zoom'', ''bearing'', ''pitch'', ''width'', ''height'']"

definition INTERACTION_STATE_KEYS :: "string list" where
  \<comment> \<open>Modelled from the spec: the fields of InteractionState.\<close>
  "INTERACTION_STATE_KEYS =
     [''isDragging'', ''isPanning'', ''isRotating'', ''isZooming'', ''startPinchRotation'',
      ''inTransition'']"

definition new_MapState :: "props \<Rightarrow> map_state" where
  \<comment> \<open>Modelled from the spec: the constructor of MapState, which is missing. An
      instance is constructed from ViewportProps and InteractionState; it keeps those
      fields of the object it is given.\<close>
  "new_MapState p =
     \<lparr>viewportProps = AList.restrict (set VIEWPORT_PROPS_KEYS) (assign [] p),
      interactiveState = AList.restrict (set INTERACTION_STATE_KEYS) (assign [] p)\<rparr>"

definition MapState_zoom :: "real \<times> real \<Rightarrow> real \<Rightarrow> map_state \<Rightarrow> map_state" where
  \<comment> \<open>Modelled from the spec: \<open>MapState.zoom\<close>, which is missing. It multiplies the
      current zoom level by \<open>scale\<close> and clamps the result to be at least 0; no
      maximum is configured. The spec gives no projection, so the anchoring at \<open>pos\<close>
      is left out: the other fields stay.\<close>
  "MapState_zoom pos scale' st =
     st\<lparr>viewportProps :=
          AList.update ''zoom''
            (VNum (js_max (Fin 0)
                     (js_mul (ToNumber (get (viewportProps st) ''zoom'')) (Fin scale'))))
            (viewportProps st)\<rparr>"

definition MapState :: "map_state viewport_state_class \<Rightarrow> map_state viewport_state_class" where
  \<comment> \<open>Modelled from the spec: the MapState class, which is missing. The spec fixes the
      constructor, the two getters and \<open>zoom\<close>; it gives no formula for the other
      operations, which are taken from the argument \<open>other\<close>.\<close>
  "MapState other =
     other\<lparr>new_ViewportState := new_MapState,
           getViewportProps := viewportProps,
           getInteractiveState := interactiveState,
           instanceofMapState := (\<lambda>vs. True),
           zoom := MapState_zoom\<rparr>"

definition inert_operations :: "map_state viewport_state_class" where
  \<comment> \<open>A class whose every operation returns its instance unchanged and which has no
      \<open>getViewport\<close>; it stands for the operations that the spec leaves open where a
      closed example needs a whole class.\<close>
  "inert_operations =
     \<lparr>new_ViewportState = new_MapState,
      getViewportProps = viewportProps,
      getInteractiveState = interactiveState,
      getViewport = None,
      instanceofMapState = (\<lambda>vs. True),
      panStart = (\<lambda>pos vs. vs), pan = (\<lambda>pos vs. vs), panEnd = (\<lambda>vs. vs),
      rotateStart = (\<lambda>pos vs. vs), rotate_vs = (\<lambda>dx dy vs. vs), rotateEnd = (\<lambda>vs. vs),
      zoomStart = (\<lambda>pos vs. vs), zoom = (\<lambda>pos s vs. vs), zoomEnd = (\<lambda>vs. vs),
      zoomIn = (\<lambda>vs. vs), zoomOut = (\<lambda>vs. vs),
      moveLeft = (\<lambda>vs. vs), moveRight = (\<lambda>vs. vs), moveUp = (\<lambda>vs. vs), moveDown = (\<lambda>vs. vs),
      rotateLeft = (\<lambda>vs. vs), rotateRight = (\<lambda>vs. vs), rotateUp = (\<lambda>vs. vs),
      rotateDown = (\<lambda>vs. vs)\<rparr>"

section \<open>Example inputs\<close>

definition plain_src_event :: src_event where
  "plain_src_event =
     \<lparr>metaKey = False, altKey = False, ctrlKey = False, shiftKey = False, keyCode = 0\<rparr>"

definition gesture :: "string \<Rightarrow> event" where
  \<comment> \<open>An event of the given type at the origin, with no movement and no key held.\<close>
  "gesture type' =
     \<lparr>ev_type = type', offsetCenter = (0, 0), deltaX = 0, deltaY = 0, delta = 0, scale = 1,
      rotation = 0, rightButton = False, srcEvent = plain_src_event\<rparr>"

definition viewport_options :: "props \<Rightarrow> callback option \<Rightarrow> callback option \<Rightarrow> options" where
  \<comment> \<open>Options with the given viewport props and callbacks and every toggle omitted.\<close>
  "viewport_options p f g =
     empty_options\<lparr>opt_onViewportChange := f,
                   opt_onStateChange := (case g of None \<Rightarrow> None | Some h \<Rightarrow> Some (Some h)),
                   opt_viewProps := p\<rparr>"



definition map_controls :: "options \<Rightarrow> map_state controls" where
  \<comment> \<open>The controller that \<open>new ViewportControls(MapState, options)\<close> constructs.\<close>
  "map_controls opts = fst (setOptions opts (initial_controls (MapState inert_operations), {}))"

section \<open>Auxiliary notions for the statements\<close>

definition tracked :: "'vs controls \<times> registrations \<Rightarrow> bool" where
  \<comment> \<open>\<open>events_tracked\<close> on a pair, with the event names quantified.\<close>
  "tracked cr =
     (\<forall>m n. eventManager (fst cr) = Some m \<longrightarrow> map_of (priv_events (fst cr)) n \<noteq> None \<longrightarrow>
        ((m, n) \<in> snd cr) = (map_of (priv_events (fst cr)) n = Some True))"

definition pitch_fraction :: "event \<Rightarrow> real \<Rightarrow> real" where
  \<comment> \<open>The pitch fraction in the words of the specification, before clamping, for a
      viewport of height \<open>h\<close>: the accelerated quotient when dragging down from a
      start point more than the threshold away from the bottom edge, one minus the
      quotient of the positions when dragging up from a start point beyond the
      threshold, and zero otherwise.\<close>
  "pitch_fraction e h =
     (let centerY = snd (offsetCenter e); startY = centerY - deltaY e
      in if 0 < deltaY e \<and> 5 < \<bar>h - startY\<bar> then deltaY e / (startY - h) * 1.2
         else if deltaY e < 0 \<and> 5 < startY then 1 - centerY / startY
         else 0)"

definition dragging_reports :: "call list \<Rightarrow> val list" where
  \<comment> \<open>The value of \<open>isDragging\<close> in each state passed to \<open>onStateChange\<close>.\<close>
  "dragging_reports calls = map (\<lambda>st. get st ''isDragging'') (state_changes calls)"

definition reported_zooms :: "call list \<Rightarrow> val list" where
  \<comment> \<open>The value of \<open>zoom\<close> in each object passed to \<open>onViewportChange\<close>.\<close>
  "reported_zooms calls = map (\<lambda>p. get p ''zoom'') (viewport_changes calls)"

definition reported_durations :: "call list \<Rightarrow> val list" where
  \<comment> \<open>The value of \<open>transitionDuration\<close> in each object passed to
      \<open>onViewportChange\<close>.\<close>
  "reported_durations calls = map (\<lambda>p. get p ''transitionDuration'') (viewport_changes calls)"

definition ends_in_updateViewport ::
  "val \<times> 'vs controls \<times> call list \<Rightarrow> 'vs \<Rightarrow> 'vs controls \<Rightarrow> bool" where
  \<comment> \<open>The result of a handler is that of a call of \<open>updateViewport\<close> on the state
      \<open>vs\<close>, with one of the three extra props the handlers pass and the callbacks and
      class of \<open>c\<close>.\<close>
  "ends_in_updateViewport result vs c =
     (\<exists>n xp xs c'. result = updateViewport n xp xs vs c' \<and>
        (xp = NO_TRANSITION_PROPS \<or> xp = LINEAR_TRANSITION_PROPS \<or> xp = []) \<and>
        onViewportChange c' = onViewportChange c \<and> ViewportState c' = ViewportState c \<and>
        eventManager c' = eventManager c \<and> priv_events c' = priv_events c)"

section \<open>Plain objects\<close>

lemma map_of_fold_update:
  "map_of (fold (\<lambda>(k, v). AList.update k v) ps al) = map_of al ++ map_of (rev ps)"
proof (induction ps arbitrary: al)
  case Nil
  show ?case by simp
next
  case (Cons x ps)
  obtain k v where x: "x = (k, v)" by (cases x)
  have "map_of (AList.update k v al) = (map_of al)(k \<mapsto> v)" by (rule update_conv')
  then have "map_of (fold (\<lambda>(k, v). AList.update k v) ps (AList.update k v al))
      = (map_of al)(k \<mapsto> v) ++ map_of (rev ps)"
    using Cons.IH [of "AList.update k v al"] by presburger
  then show ?case by (simp add: x map_add_upd_left del: update_conv')
qed

lemma map_of_assign: "map_of (assign a b) = map_of a ++ map_of (rev b)"
  by (simp add: assign_def map_of_fold_update)

lemma map_of_rev_distinct: "distinct (map fst xs) \<Longrightarrow> map_of (rev xs) = map_of xs"
proof (induction xs)
  case Nil
  show ?case by simp
next
  case (Cons x xs)
  obtain k v where x: "x = (k, v)" by (cases x)
  have k: "map_of xs k = None" using Cons.prems by (simp add: x map_of_eq_None_iff)
  have IH: "map_of (rev xs) = map_of xs" using Cons by simp
  show ?case
  proof (rule ext)
    fix k'
    show "map_of (rev (x # xs)) k' = map_of (x # xs) k'"
      using k by (cases "map_of xs k'") (auto simp add: x IH map_add_def)
  qed
qed

lemma distinct_fold_update:
  "distinct (map fst al) \<Longrightarrow> distinct (map fst (fold (\<lambda>(k, v). AList.update k v) ps al))"
proof (induction ps arbitrary: al)
  case Nil
  then show ?case by simp
next
  case (Cons x ps)
  obtain k v where x: "x = (k, v)" by (cases x)
  show ?case using Cons.IH [OF distinct_update [OF Cons.prems, of k v]] by (simp add: x)
qed

lemma distinct_assign: "distinct (map fst a) \<Longrightarrow> distinct (map fst (assign a b))"
  by (simp add: assign_def distinct_fold_update)

lemma distinct_assign_empty: "distinct (map fst (assign [] b))"
  by (simp add: distinct_assign)

lemma get_assign_single: "get (assign a [(k, v)]) k' = (if k' = k then v else get a k')"
  by (simp add: get_def map_of_assign)

lemma get_assign_distinct:
  "distinct (map fst b) \<Longrightarrow>
   get (assign a b) k = (case map_of b k of None \<Rightarrow> get a k | Some v \<Rightarrow> v)"
  by (simp add: get_def map_of_assign map_of_rev_distinct map_add_def split: option.splits)

lemma set_keys_fold_update:
  "fst ` set (fold (\<lambda>(k, v). AList.update k v) ps al) = fst ` set al \<union> fst ` set ps"
proof (induction ps arbitrary: al)
  case Nil
  show ?case by simp
next
  case (Cons x ps)
  obtain k v where x: "x = (k, v)" by (cases x)
  show ?case using Cons.IH [of "AList.update k v al"] by (auto simp add: x dom_update)
qed

lemma set_keys_assign: "set (keys (assign a b)) = set (keys a) \<union> set (keys b)"
  by (simp add: keys_def assign_def set_keys_fold_update)

section \<open>Dispatch\<close>

lemma handleEvent_wheel:
  "ev_type e = ''wheel'' \<Longrightarrow>
   handleEvent e c = onWheel e (fresh_viewState c) (c\<lparr>viewState := Some (fresh_viewState c)\<rparr>)"
  by (simp add: handleEvent_def Let_def)

lemma handleEvent_panstart:
  "ev_type e = ''panstart'' \<Longrightarrow>
   handleEvent e c = onPanStart e (fresh_viewState c) (c\<lparr>viewState := Some (fresh_viewState c)\<rparr>)"
  by (simp add: handleEvent_def Let_def)

lemma handleEvent_panmove:
  "ev_type e = ''panmove'' \<Longrightarrow>
   handleEvent e c = onPan e (fresh_viewState c) (c\<lparr>viewState := Some (fresh_viewState c)\<rparr>)"
  by (simp add: handleEvent_def Let_def)

lemma handleEvent_panend:
  "ev_type e = ''panend'' \<Longrightarrow>
   handleEvent e c = onPanEnd e (fresh_viewState c) (c\<lparr>viewState := Some (fresh_viewState c)\<rparr>)"
  by (simp add: handleEvent_def Let_def)


lemma handleEvent_doubletap:
  "ev_type e = ''doubletap'' \<Longrightarrow>
   handleEvent e c = onDoubleTap e (fresh_viewState c) (c\<lparr>viewState := Some (fresh_viewState c)\<rparr>)"
  by (simp add: handleEvent_def Let_def)


lemma GESTURE_EVENTS_eq:
  "GESTURE_EVENTS =
     [''wheel'', ''panstart'', ''panmove'', ''panend'', ''pinchstart'', ''pinchmove'',
      ''pinchend'', ''doubletap'', ''keydown'']"
  by (simp add: GESTURE_EVENTS_def EVENT_TYPES_WHEEL_def EVENT_TYPES_PAN_def
      EVENT_TYPES_PINCH_def EVENT_TYPES_DOUBLE_TAP_def EVENT_TYPES_KEYBOARD_def)

section \<open>Options\<close>

lemma toggle_fold:
  fixes m :: manager and en :: bool
  defines "step \<equiv> (\<lambda>eventName (c :: 'vs controls, regs).
                  if map_of (priv_events c) eventName \<noteq> Some en
                  then (c\<lparr>priv_events := AList.update eventName en (priv_events c)\<rparr>,
                        if en then eventManager_on m eventName regs
                        else eventManager_off m eventName regs)
                  else (c, regs))"
  shows "(\<exists>ev. fst (fold step names (c, regs)) = c\<lparr>priv_events := ev\<rparr>)
       \<and> (\<forall>n. map_of (priv_events (fst (fold step names (c, regs)))) n =
              (if n \<in> set names then Some en else map_of (priv_events c) n))
       \<and> (\<forall>m' n. ((m', n) \<in> snd (fold step names (c, regs))) =
              (if m' = m \<and> n \<in> set names \<and> map_of (priv_events c) n \<noteq> Some en then en
               else (m', n) \<in> regs))"
proof (induction names arbitrary: c regs)
  case Nil
  have "c = c\<lparr>priv_events := priv_events c\<rparr>" by simp
  then have "\<exists>ev. c = c\<lparr>priv_events := ev\<rparr>" by (rule exI)
  then show ?case by simp
next
  case (Cons x xs)
  show ?case
  proof (cases "map_of (priv_events c) x = Some en")
    case True
    then have f: "fold step (x # xs) (c, regs) = fold step xs (c, regs)"
      by (simp add: step_def)
    show ?thesis unfolding f using Cons.IH [of c regs] True by auto
  next
    case False
    define c1 where "c1 = c\<lparr>priv_events := AList.update x en (priv_events c)\<rparr>"
    define regs1 where "regs1 = (if en then eventManager_on m x regs else eventManager_off m x regs)"
    have f: "fold step (x # xs) (c, regs) = fold step xs (c1, regs1)"
      using False by (simp add: step_def c1_def regs1_def)
    have ev1: "map_of (priv_events c1) n = (if n = x then Some en else map_of (priv_events c) n)" for n
      by (simp add: c1_def update_conv')
    have regs1: "((m', n) \<in> regs1) = (if m' = m \<and> n = x then en else (m', n) \<in> regs)" for m' n
      by (auto simp add: regs1_def eventManager_on_def eventManager_off_def)
    note IH = Cons.IH [of c1 regs1]
    from IH obtain ev where "fst (fold step xs (c1, regs1)) = c1\<lparr>priv_events := ev\<rparr>" by blast
    then have "fst (fold step xs (c1, regs1)) = c\<lparr>priv_events := ev\<rparr>" by (simp add: c1_def)
    then have a: "\<exists>ev. fst (fold step xs (c1, regs1)) = c\<lparr>priv_events := ev\<rparr>" by (rule exI)
    have b: "map_of (priv_events (fst (fold step xs (c1, regs1)))) n =
         (if n \<in> set (x # xs) then Some en else map_of (priv_events c) n)" for n
      using IH [THEN conjunct2, THEN conjunct1, rule_format, of n] ev1 [of n]
      by (cases "n = x") auto
    have c: "((m', n) \<in> snd (fold step xs (c1, regs1))) =
         (if m' = m \<and> n \<in> set (x # xs) \<and> map_of (priv_events c) n \<noteq> Some en then en
          else (m', n) \<in> regs)" for m' n
      using IH [THEN conjunct2, THEN conjunct2, rule_format, of m' n] ev1 [of n] regs1 [of m' n] False
      by (cases "n = x") auto
    show ?thesis unfolding f using a b c by blast
  qed
qed

lemma toggleEvents_None: "eventManager (fst cr) = None \<Longrightarrow> toggleEvents names en cr = cr"
  by (simp add: toggleEvents_def)

lemma toggleEvents_Some:
  assumes "eventManager (fst cr) = Some m"
  shows "\<exists>ev. fst (toggleEvents names en cr) = (fst cr)\<lparr>priv_events := ev\<rparr>"
    and "map_of (priv_events (fst (toggleEvents names en cr))) n =
           (if n \<in> set names then Some en else map_of (priv_events (fst cr)) n)"
    and "((m', n) \<in> snd (toggleEvents names en cr)) =
           (if m' = m \<and> n \<in> set names \<and> map_of (priv_events (fst cr)) n \<noteq> Some en then en
            else (m', n) \<in> snd cr)"
proof -
  obtain c regs where cr: "cr = (c, regs)" by (cases cr)
  have t: "toggleEvents names en cr =
      fold (\<lambda>eventName (c, regs).
                  if map_of (priv_events c) eventName \<noteq> Some en
                  then (c\<lparr>priv_events := AList.update eventName en (priv_events c)\<rparr>,
                        if en then eventManager_on m eventName regs
                        else eventManager_off m eventName regs)
                  else (c, regs)) names (c, regs)"
    using assms by (simp add: toggleEvents_def cr)
  note F = toggle_fold [where m = m and en = en and names = names and c = c and regs = regs, folded t]
  show "\<exists>ev. fst (toggleEvents names en cr) = (fst cr)\<lparr>priv_events := ev\<rparr>"
    using F [THEN conjunct1] by (simp add: cr)
  show "map_of (priv_events (fst (toggleEvents names en cr))) n =
           (if n \<in> set names then Some en else map_of (priv_events (fst cr)) n)"
    using F [THEN conjunct2, THEN conjunct1, rule_format, of n] by (simp add: cr)
  show "((m', n) \<in> snd (toggleEvents names en cr)) =
           (if m' = m \<and> n \<in> set names \<and> map_of (priv_events (fst cr)) n \<noteq> Some en then en
            else (m', n) \<in> snd cr)"
    using F [THEN conjunct2, THEN conjunct2, rule_format, of m' n] by (simp add: cr)
qed

lemma toggleEvents_frame: "\<exists>ev. fst (toggleEvents names en cr) = (fst cr)\<lparr>priv_events := ev\<rparr>"
proof (cases "eventManager (fst cr)")
  case None
  have "fst cr = (fst cr)\<lparr>priv_events := priv_events (fst cr)\<rparr>" by simp
  then show ?thesis unfolding toggleEvents_None [OF None] by (rule exI)
next
  case (Some m)
  then show ?thesis by (rule toggleEvents_Some(1))
qed

lemma toggleEvents_fields:
  "ViewportState (fst (toggleEvents names en cr)) = ViewportState (fst cr)"
  "viewState (fst (toggleEvents names en cr)) = viewState (fst cr)"
  "viewStateProps (fst (toggleEvents names en cr)) = viewStateProps (fst cr)"
  "eventManager (fst (toggleEvents names en cr)) = eventManager (fst cr)"
  "priv_state (fst (toggleEvents names en cr)) = priv_state (fst cr)"
  "events (fst (toggleEvents names en cr)) = events (fst cr)"
  "onViewportChange (fst (toggleEvents names en cr)) = onViewportChange (fst cr)"
  "onStateChange (fst (toggleEvents names en cr)) = onStateChange (fst cr)"
  using toggleEvents_frame [of names en cr] by auto

lemma events_tracked_iff: "events_tracked c regs = tracked (c, regs)"
proof (cases "eventManager c")
  case None
  then show ?thesis by (simp add: events_tracked_def tracked_def)
next
  case (Some m)
  have "list_all (\<lambda>n. ((m, n) \<in> regs) = (map_of (priv_events c) n = Some True)) (map fst (priv_events c))
      = (\<forall>n. map_of (priv_events c) n \<noteq> None \<longrightarrow> ((m, n) \<in> regs) = (map_of (priv_events c) n = Some True))"
    by (simp add: list_all_iff map_of_eq_None_iff) blast
  then show ?thesis using Some by (simp add: events_tracked_def tracked_def)
qed

lemma tracked_toggleEvents:
  assumes "tracked cr"
  shows "tracked (toggleEvents names en cr)"
proof (cases "eventManager (fst cr)")
  case None
  then show ?thesis using assms by (simp add: toggleEvents_None)
next
  case (Some m)
  show ?thesis
    unfolding tracked_def
  proof (intro allI impI)
    fix m' n
    assume em: "eventManager (fst (toggleEvents names en cr)) = Some m'"
      and ne: "map_of (priv_events (fst (toggleEvents names en cr))) n \<noteq> None"
    have m': "m' = m" using em Some by (simp add: toggleEvents_fields)
    note ev = toggleEvents_Some(2) [OF Some, of names en n]
    note rg = toggleEvents_Some(3) [OF Some, of m n names en]
    show "((m', n) \<in> snd (toggleEvents names en cr)) =
          (map_of (priv_events (fst (toggleEvents names en cr))) n = Some True)"
    proof (cases "n \<in> set names")
      case True
      show ?thesis
      proof (cases "map_of (priv_events (fst cr)) n = Some en")
        case True
        then have "((m, n) \<in> snd cr) = en" using assms Some by (auto simp add: tracked_def)
        then show ?thesis using ev rg \<open>n \<in> set names\<close> True m' by simp
      next
        case False
        then show ?thesis using ev rg \<open>n \<in> set names\<close> m' by simp
      qed
    next
      case False
      then have "map_of (priv_events (fst cr)) n \<noteq> None" using ne ev by simp
      then have "((m, n) \<in> snd cr) = (map_of (priv_events (fst cr)) n = Some True)"
        using assms Some by (simp add: tracked_def)
      then show ?thesis using ev rg False m' by simp
    qed
  qed
qed

lemma tracked_pair: "tracked cr = events_tracked (fst cr) (snd cr)"
  by (simp add: events_tracked_iff)

lemma setOptions_chain:
  assumes c1: "c1 = (fst cr)\<lparr>onViewportChange := opt_onViewportChange opts,
                 onStateChange := default_to (opt_onStateChange opts) (onStateChange (fst cr)),
                 viewStateProps := options_obj opts\<rparr>"
    and em: "em' = default_to (opt_eventManager opts) (eventManager (fst cr))"
    and cr2: "cr2 = (if eventManager (fst cr) \<noteq> em'
                 then toggleEvents (events c1) True
                        (c1\<lparr>eventManager := em', priv_events := []\<rparr>, snd cr)
                 else (c1, snd cr))"
    and ia: "ia = (opt_onViewportChange opts \<noteq> None)"
    and cr3: "cr3 = toggleEvents EVENT_TYPES_WHEEL (ia \<and> default_to (opt_scrollZoom opts) True) cr2"
    and cr4: "cr4 = toggleEvents EVENT_TYPES_PAN
                (ia \<and> (default_to (opt_dragPan opts) True \<or> default_to (opt_dragRotate opts) True)) cr3"
    and cr5: "cr5 = toggleEvents EVENT_TYPES_PINCH
                (ia \<and> (default_to (opt_touchZoom opts) True \<or> default_to (opt_touchRotate opts) False)) cr4"
    and cr6: "cr6 = toggleEvents EVENT_TYPES_DOUBLE_TAP
                (ia \<and> default_to (opt_doubleClickZoom opts) True) cr5"
    and cr7: "cr7 = toggleEvents EVENT_TYPES_KEYBOARD (ia \<and> default_to (opt_keyboard opts) True) cr6"
  shows "setOptions opts cr =
           ((fst cr7)\<lparr>scrollZoom := default_to (opt_scrollZoom opts) True,
                     dragPan := default_to (opt_dragPan opts) True,
                     dragRotate := default_to (opt_dragRotate opts) True,
                     doubleClickZoom := default_to (opt_doubleClickZoom opts) True,
                     touchZoom := default_to (opt_touchZoom opts) True,
                     touchRotate := default_to (opt_touchRotate opts) False,
                     keyboard := default_to (opt_keyboard opts) True\<rparr>,
            snd cr7)"
proof -
  have e1: "eventManager c1 = eventManager (fst cr)" by (simp add: c1)
  have "onViewportChange (fst cr2) = opt_onViewportChange opts"
    by (simp add: cr2 toggleEvents_fields c1)
  then have ia': "(onViewportChange (fst cr2) \<noteq> None) = ia" by (simp add: ia)
  show ?thesis
    unfolding setOptions_def Let_def
    unfolding c1 [symmetric] em [symmetric] e1 cr2 [symmetric] ia' cr3 [symmetric]
      cr4 [symmetric] cr5 [symmetric] cr6 [symmetric] cr7 [symmetric]
    by (rule refl)
qed

lemma setOptions_chain_facts:
  assumes c1: "c1 = (fst cr)\<lparr>onViewportChange := opt_onViewportChange opts,
                 onStateChange := default_to (opt_onStateChange opts) (onStateChange (fst cr)),
                 viewStateProps := options_obj opts\<rparr>"
    and em: "em' = default_to (opt_eventManager opts) (eventManager (fst cr))"
    and cr2: "cr2 = (if eventManager (fst cr) \<noteq> em'
                 then toggleEvents (events c1) True
                        (c1\<lparr>eventManager := em', priv_events := []\<rparr>, snd cr)
                 else (c1, snd cr))"
    and cr3: "cr3 = toggleEvents EVENT_TYPES_WHEEL en_wheel cr2"
    and cr4: "cr4 = toggleEvents EVENT_TYPES_PAN en_pan cr3"
    and cr5: "cr5 = toggleEvents EVENT_TYPES_PINCH en_pinch cr4"
    and cr6: "cr6 = toggleEvents EVENT_TYPES_DOUBLE_TAP en_tap cr5"
    and cr7: "cr7 = toggleEvents EVENT_TYPES_KEYBOARD en_key cr6"
  shows "\<exists>ev. fst cr7 = c1\<lparr>eventManager := em', priv_events := ev\<rparr>"
    and "events_tracked (fst cr) (snd cr) \<Longrightarrow> events_tracked (fst cr7) (snd cr7)"
    and "events_tracked (fst cr) (snd cr) \<Longrightarrow> em' = Some m \<Longrightarrow>
           (n \<in> set EVENT_TYPES_WHEEL \<longrightarrow> ((m, n) \<in> snd cr7) = en_wheel) \<and>
           (n \<in> set EVENT_TYPES_PAN \<longrightarrow> ((m, n) \<in> snd cr7) = en_pan) \<and>
           (n \<in> set EVENT_TYPES_PINCH \<longrightarrow> ((m, n) \<in> snd cr7) = en_pinch) \<and>
           (n \<in> set EVENT_TYPES_DOUBLE_TAP \<longrightarrow> ((m, n) \<in> snd cr7) = en_tap) \<and>
           (n \<in> set EVENT_TYPES_KEYBOARD \<longrightarrow> ((m, n) \<in> snd cr7) = en_key)"
proof -
  have f2: "\<exists>ev. fst cr2 = c1\<lparr>eventManager := em', priv_events := ev\<rparr>"
  proof (cases "eventManager (fst cr) \<noteq> em'")
    case True
    obtain ev where "fst (toggleEvents (events c1) True (c1\<lparr>eventManager := em', priv_events := []\<rparr>, snd cr))
        = (fst (c1\<lparr>eventManager := em', priv_events := []\<rparr>, snd cr))\<lparr>priv_events := ev\<rparr>"
      using toggleEvents_frame by blast
    then have "fst cr2 = c1\<lparr>eventManager := em', priv_events := ev\<rparr>"
      using True by (simp add: cr2)
    then show ?thesis by (rule exI)
  next
    case False
    then have "eventManager c1 = em'" by (simp add: c1)
    then have "c1 = c1\<lparr>eventManager := em', priv_events := priv_events c1\<rparr>" by simp
    then have "fst cr2 = c1\<lparr>eventManager := em', priv_events := priv_events c1\<rparr>"
      using False by (simp add: cr2)
    then show ?thesis by (rule exI)
  qed
  have step: "\<exists>ev. fst (toggleEvents names en x) = c1\<lparr>eventManager := em', priv_events := ev\<rparr>"
    if "\<exists>ev. fst x = c1\<lparr>eventManager := em', priv_events := ev\<rparr>" for names en x
  proof -
    from that obtain ev where x: "fst x = c1\<lparr>eventManager := em', priv_events := ev\<rparr>" by blast
    obtain ev' where "fst (toggleEvents names en x) = (fst x)\<lparr>priv_events := ev'\<rparr>"
      using toggleEvents_frame by blast
    then have "fst (toggleEvents names en x) = c1\<lparr>eventManager := em', priv_events := ev'\<rparr>"
      by (simp add: x)
    then show ?thesis by (rule exI)
  qed
  have f3: "\<exists>ev. fst cr3 = c1\<lparr>eventManager := em', priv_events := ev\<rparr>"
    unfolding cr3 using f2 by (rule step)
  have f4: "\<exists>ev. fst cr4 = c1\<lparr>eventManager := em', priv_events := ev\<rparr>"
    unfolding cr4 using f3 by (rule step)
  have f5: "\<exists>ev. fst cr5 = c1\<lparr>eventManager := em', priv_events := ev\<rparr>"
    unfolding cr5 using f4 by (rule step)
  have f6: "\<exists>ev. fst cr6 = c1\<lparr>eventManager := em', priv_events := ev\<rparr>"
    unfolding cr6 using f5 by (rule step)
  show f7: "\<exists>ev. fst cr7 = c1\<lparr>eventManager := em', priv_events := ev\<rparr>"
    unfolding cr7 using f6 by (rule step)
  have t2: "tracked cr2" if t: "events_tracked (fst cr) (snd cr)"
  proof (cases "eventManager (fst cr) \<noteq> em'")
    case True
    have "tracked (c1\<lparr>eventManager := em', priv_events := []\<rparr>, snd cr)"
      by (simp add: tracked_def)
    then show ?thesis using True by (simp add: cr2 tracked_toggleEvents)
  next
    case False
    have "tracked (c1, snd cr)"
      using t by (simp add: events_tracked_iff tracked_def c1)
    then show ?thesis using False by (simp add: cr2)
  qed
  have t7: "tracked cr7" if t: "events_tracked (fst cr) (snd cr)"
    unfolding cr7 cr6 cr5 cr4 cr3 using t2 [OF t] by (intro tracked_toggleEvents)
  show "events_tracked (fst cr7) (snd cr7)" if t: "events_tracked (fst cr) (snd cr)"
    using t7 [OF t] by (simp add: tracked_pair)
  show "(n \<in> set EVENT_TYPES_WHEEL \<longrightarrow> ((m, n) \<in> snd cr7) = en_wheel) \<and>
           (n \<in> set EVENT_TYPES_PAN \<longrightarrow> ((m, n) \<in> snd cr7) = en_pan) \<and>
           (n \<in> set EVENT_TYPES_PINCH \<longrightarrow> ((m, n) \<in> snd cr7) = en_pinch) \<and>
           (n \<in> set EVENT_TYPES_DOUBLE_TAP \<longrightarrow> ((m, n) \<in> snd cr7) = en_tap) \<and>
           (n \<in> set EVENT_TYPES_KEYBOARD \<longrightarrow> ((m, n) \<in> snd cr7) = en_key)"
    if t: "events_tracked (fst cr) (snd cr)" and m: "em' = Some m"
  proof -
    have m2: "eventManager (fst cr2) = Some m" using f2 m by auto
    have m3: "eventManager (fst cr3) = Some m" using f3 m by auto
    have m4: "eventManager (fst cr4) = Some m" using f4 m by auto
    have m5: "eventManager (fst cr5) = Some m" using f5 m by auto
    have m6: "eventManager (fst cr6) = Some m" using f6 m by auto
    have m7: "eventManager (fst cr7) = Some m" using f7 m by auto
    have e3: "map_of (priv_events (fst cr3)) n =
        (if n \<in> set EVENT_TYPES_WHEEL then Some en_wheel else map_of (priv_events (fst cr2)) n)"
      unfolding cr3 by (rule toggleEvents_Some(2) [OF m2])
    have e4: "map_of (priv_events (fst cr4)) n =
        (if n \<in> set EVENT_TYPES_PAN then Some en_pan else map_of (priv_events (fst cr3)) n)"
      unfolding cr4 by (rule toggleEvents_Some(2) [OF m3])
    have e5: "map_of (priv_events (fst cr5)) n =
        (if n \<in> set EVENT_TYPES_PINCH then Some en_pinch else map_of (priv_events (fst cr4)) n)"
      unfolding cr5 by (rule toggleEvents_Some(2) [OF m4])
    have e6: "map_of (priv_events (fst cr6)) n =
        (if n \<in> set EVENT_TYPES_DOUBLE_TAP then Some en_tap else map_of (priv_events (fst cr5)) n)"
      unfolding cr6 by (rule toggleEvents_Some(2) [OF m5])
    have e7: "map_of (priv_events (fst cr7)) n =
        (if n \<in> set EVENT_TYPES_KEYBOARD then Some en_key else map_of (priv_events (fst cr6)) n)"
      unfolding cr7 by (rule toggleEvents_Some(2) [OF m6])
    have reg: "((m, n) \<in> snd cr7) = b" if "map_of (priv_events (fst cr7)) n = Some b" for b
      using t7 [OF t] m7 that by (auto simp add: tracked_def)
    have w: "((m, n) \<in> snd cr7) = en_wheel" if "n \<in> set EVENT_TYPES_WHEEL"
      using that e3 e4 e5 e6 e7
      by (intro reg) (auto simp add: EVENT_TYPES_WHEEL_def EVENT_TYPES_PAN_def EVENT_TYPES_PINCH_def
          EVENT_TYPES_DOUBLE_TAP_def EVENT_TYPES_KEYBOARD_def)
    have p: "((m, n) \<in> snd cr7) = en_pan" if "n \<in> set EVENT_TYPES_PAN"
      using that e4 e5 e6 e7
      by (intro reg) (auto simp add: EVENT_TYPES_PAN_def EVENT_TYPES_PINCH_def
          EVENT_TYPES_DOUBLE_TAP_def EVENT_TYPES_KEYBOARD_def)
    have q: "((m, n) \<in> snd cr7) = en_pinch" if "n \<in> set EVENT_TYPES_PINCH"
      using that e5 e6 e7
      by (intro reg) (auto simp add: EVENT_TYPES_PINCH_def
          EVENT_TYPES_DOUBLE_TAP_def EVENT_TYPES_KEYBOARD_def)
    have d: "((m, n) \<in> snd cr7) = en_tap" if "n \<in> set EVENT_TYPES_DOUBLE_TAP"
      using that e6 e7
      by (intro reg) (auto simp add: EVENT_TYPES_DOUBLE_TAP_def EVENT_TYPES_KEYBOARD_def)
    have k: "((m, n) \<in> snd cr7) = en_key" if "n \<in> set EVENT_TYPES_KEYBOARD"
      using that e7 by (intro reg) auto
    show ?thesis using w p q d k by blast
  qed
qed

lemma setOptions_summary:
  fixes opts :: options and cr :: "'vs controls \<times> registrations"
  defines "en_wheel \<equiv> opt_onViewportChange opts \<noteq> None \<and> default_to (opt_scrollZoom opts) True"
    and "en_pan \<equiv> opt_onViewportChange opts \<noteq> None \<and>
           (default_to (opt_dragPan opts) True \<or> default_to (opt_dragRotate opts) True)"
    and "en_pinch \<equiv> opt_onViewportChange opts \<noteq> None \<and>
           (default_to (opt_touchZoom opts) True \<or> default_to (opt_touchRotate opts) False)"
    and "en_tap \<equiv> opt_onViewportChange opts \<noteq> None \<and> default_to (opt_doubleClickZoom opts) True"
    and "en_key \<equiv> opt_onViewportChange opts \<noteq> None \<and> default_to (opt_keyboard opts) True"
  shows "\<exists>ev. fst (setOptions opts cr) =
           (fst cr)\<lparr>onViewportChange := opt_onViewportChange opts,
                    onStateChange := default_to (opt_onStateChange opts) (onStateChange (fst cr)),
                    viewStateProps := options_obj opts,
                    eventManager := default_to (opt_eventManager opts) (eventManager (fst cr)),
                    priv_events := ev,
                    scrollZoom := default_to (opt_scrollZoom opts) True,
                    dragPan := default_to (opt_dragPan opts) True,
                    dragRotate := default_to (opt_dragRotate opts) True,
                    doubleClickZoom := default_to (opt_doubleClickZoom opts) True,
                    touchZoom := default_to (opt_touchZoom opts) True,
                    touchRotate := default_to (opt_touchRotate opts) False,
                    keyboard := default_to (opt_keyboard opts) True\<rparr>"
    and "events_tracked (fst cr) (snd cr) \<Longrightarrow>
           events_tracked (fst (setOptions opts cr)) (snd (setOptions opts cr))"
    and "events_tracked (fst cr) (snd cr) \<Longrightarrow>
         default_to (opt_eventManager opts) (eventManager (fst cr)) = Some m \<Longrightarrow>
           (n \<in> set EVENT_TYPES_WHEEL \<longrightarrow> ((m, n) \<in> snd (setOptions opts cr)) = en_wheel) \<and>
           (n \<in> set EVENT_TYPES_PAN \<longrightarrow> ((m, n) \<in> snd (setOptions opts cr)) = en_pan) \<and>
           (n \<in> set EVENT_TYPES_PINCH \<longrightarrow> ((m, n) \<in> snd (setOptions opts cr)) = en_pinch) \<and>
           (n \<in> set EVENT_TYPES_DOUBLE_TAP \<longrightarrow> ((m, n) \<in> snd (setOptions opts cr)) = en_tap) \<and>
           (n \<in> set EVENT_TYPES_KEYBOARD \<longrightarrow> ((m, n) \<in> snd (setOptions opts cr)) = en_key)"
proof -
  define c1 where "c1 = (fst cr)\<lparr>onViewportChange := opt_onViewportChange opts,
                 onStateChange := default_to (opt_onStateChange opts) (onStateChange (fst cr)),
                 viewStateProps := options_obj opts\<rparr>"
  define em' where "em' = default_to (opt_eventManager opts) (eventManager (fst cr))"
  define cr2 where "cr2 = (if eventManager (fst cr) \<noteq> em'
                 then toggleEvents (events c1) True
                        (c1\<lparr>eventManager := em', priv_events := []\<rparr>, snd cr)
                 else (c1, snd cr))"
  define ia where "ia = (opt_onViewportChange opts \<noteq> None)"
  define cr3 where "cr3 = toggleEvents EVENT_TYPES_WHEEL (ia \<and> default_to (opt_scrollZoom opts) True) cr2"
  define cr4 where "cr4 = toggleEvents EVENT_TYPES_PAN
                (ia \<and> (default_to (opt_dragPan opts) True \<or> default_to (opt_dragRotate opts) True)) cr3"
  define cr5 where "cr5 = toggleEvents EVENT_TYPES_PINCH
                (ia \<and> (default_to (opt_touchZoom opts) True \<or> default_to (opt_touchRotate opts) False)) cr4"
  define cr6 where "cr6 = toggleEvents EVENT_TYPES_DOUBLE_TAP
                (ia \<and> default_to (opt_doubleClickZoom opts) True) cr5"
  define cr7 where "cr7 = toggleEvents EVENT_TYPES_KEYBOARD (ia \<and> default_to (opt_keyboard opts) True) cr6"
  note chain = setOptions_chain [OF c1_def em'_def cr2_def ia_def cr3_def cr4_def cr5_def cr6_def cr7_def]
  note facts = setOptions_chain_facts [OF c1_def em'_def cr2_def cr3_def cr4_def cr5_def cr6_def cr7_def]
  from facts(1) obtain ev where ev: "fst cr7 = c1\<lparr>eventManager := em', priv_events := ev\<rparr>" by blast
  have "fst (setOptions opts cr) =
           (fst cr)\<lparr>onViewportChange := opt_onViewportChange opts,
                    onStateChange := default_to (opt_onStateChange opts) (onStateChange (fst cr)),
                    viewStateProps := options_obj opts,
                    eventManager := default_to (opt_eventManager opts) (eventManager (fst cr)),
                    priv_events := ev,
                    scrollZoom := default_to (opt_scrollZoom opts) True,
                    dragPan := default_to (opt_dragPan opts) True,
                    dragRotate := default_to (opt_dragRotate opts) True,
                    doubleClickZoom := default_to (opt_doubleClickZoom opts) True,
                    touchZoom := default_to (opt_touchZoom opts) True,
                    touchRotate := default_to (opt_touchRotate opts) False,
                    keyboard := default_to (opt_keyboard opts) True\<rparr>"
    by (simp add: chain ev c1_def em'_def)
  then show "\<exists>ev. fst (setOptions opts cr) =
           (fst cr)\<lparr>onViewportChange := opt_onViewportChange opts,
                    onStateChange := default_to (opt_onStateChange opts) (onStateChange (fst cr)),
                    viewStateProps := options_obj opts,
                    eventManager := default_to (opt_eventManager opts) (eventManager (fst cr)),
                    priv_events := ev,
                    scrollZoom := default_to (opt_scrollZoom opts) True,
                    dragPan := default_to (opt_dragPan opts) True,
                    dragRotate := default_to (opt_dragRotate opts) True,
                    doubleClickZoom := default_to (opt_doubleClickZoom opts) True,
                    touchZoom := default_to (opt_touchZoom opts) True,
                    touchRotate := default_to (opt_touchRotate opts) False,
                    keyboard := default_to (opt_keyboard opts) True\<rparr>"
    by (rule exI)
  show "events_tracked (fst (setOptions opts cr)) (snd (setOptions opts cr))"
    if "events_tracked (fst cr) (snd cr)"
    using facts(2) [OF that] by (simp add: chain events_tracked_iff tracked_def)
  show "(n \<in> set EVENT_TYPES_WHEEL \<longrightarrow> ((m, n) \<in> snd (setOptions opts cr)) = en_wheel) \<and>
           (n \<in> set EVENT_TYPES_PAN \<longrightarrow> ((m, n) \<in> snd (setOptions opts cr)) = en_pan) \<and>
           (n \<in> set EVENT_TYPES_PINCH \<longrightarrow> ((m, n) \<in> snd (setOptions opts cr)) = en_pinch) \<and>
           (n \<in> set EVENT_TYPES_DOUBLE_TAP \<longrightarrow> ((m, n) \<in> snd (setOptions opts cr)) = en_tap) \<and>
           (n \<in> set EVENT_TYPES_KEYBOARD \<longrightarrow> ((m, n) \<in> snd (setOptions opts cr)) = en_key)"
    if "events_tracked (fst cr) (snd cr)"
      and "default_to (opt_eventManager opts) (eventManager (fst cr)) = Some m"
    using facts(3) [OF that(1), of m n] that(2)
    by (simp add: chain em'_def ia_def en_wheel_def en_pan_def en_pinch_def en_tap_def en_key_def)
qed

lemma setOptions_fields:
  "onViewportChange (fst (setOptions opts cr)) = opt_onViewportChange opts"
  "onStateChange (fst (setOptions opts cr)) =
     default_to (opt_onStateChange opts) (onStateChange (fst cr))"
  "eventManager (fst (setOptions opts cr)) =
     default_to (opt_eventManager opts) (eventManager (fst cr))"
  "viewStateProps (fst (setOptions opts cr)) = options_obj opts"
  "ViewportState (fst (setOptions opts cr)) = ViewportState (fst cr)"
  "viewState (fst (setOptions opts cr)) = viewState (fst cr)"
  "priv_state (fst (setOptions opts cr)) = priv_state (fst cr)"
  "events (fst (setOptions opts cr)) = events (fst cr)"
  using setOptions_summary(1) [of opts cr] by auto

lemma setOptions_toggles:
  "scrollZoom (fst (setOptions opts cr)) = default_to (opt_scrollZoom opts) True"
  "dragPan (fst (setOptions opts cr)) = default_to (opt_dragPan opts) True"
  "dragRotate (fst (setOptions opts cr)) = default_to (opt_dragRotate opts) True"
  "doubleClickZoom (fst (setOptions opts cr)) = default_to (opt_doubleClickZoom opts) True"
  "touchZoom (fst (setOptions opts cr)) = default_to (opt_touchZoom opts) True"
  "touchRotate (fst (setOptions opts cr)) = default_to (opt_touchRotate opts) False"
  "keyboard (fst (setOptions opts cr)) = default_to (opt_keyboard opts) True"
  by (simp_all add: setOptions_def Let_def)

lemma map_controls_fields:
  "ViewportState (map_controls opts) = MapState inert_operations"
  "onViewportChange (map_controls opts) = opt_onViewportChange opts"
  "onStateChange (map_controls opts) = default_to (opt_onStateChange opts) None"
  "eventManager (map_controls opts) = default_to (opt_eventManager opts) None"
  "viewStateProps (map_controls opts) = options_obj opts"
  "priv_state (map_controls opts) = [(''isDragging'', VBool False)]"
  by (simp_all add: map_controls_def setOptions_fields initial_controls_def)

lemma events_tracked_initial: "events_tracked (initial_controls cls) regs"
  by (simp add: events_tracked_def initial_controls_def)

lemma new_ViewportControls_events_tracked:
  assumes "new_ViewportControls cls opts regs = Inr cr"
  shows "events_tracked (fst cr) (snd cr)"
proof (cases cls)
  case None
  then show ?thesis using assms by (simp add: new_ViewportControls_def)
next
  case (Some ViewportState')
  then have "cr = setOptions opts (initial_controls ViewportState', regs)"
    using assms by (simp add: new_ViewportControls_def)
  then show ?thesis by (simp add: setOptions_summary(2) events_tracked_initial)
qed

lemma new_ViewportControls_missing_class:
  "new_ViewportControls None opts regs = Inl AssertionError"
  by (simp add: new_ViewportControls_def)




section \<open>Subscriptions\<close>





section \<open>Rounding to double precision\<close>












section \<open>The wheel scale\<close>

lemma saturating_bounds:
  fixes x :: real
  assumes "0 \<le> x"
  shows "1 \<le> 2 / (1 + exp (- x))" and "2 / (1 + exp (- x)) < 2"
proof -
  have pos: "0 < exp (- x)" by simp
  have le1: "exp (- x) \<le> 1" using assms by simp
  have den: "0 < 1 + exp (- x)" using pos by linarith
  show "1 \<le> 2 / (1 + exp (- x))" using den le1 by (simp add: pos_le_divide_eq)
  have "2 < 2 * (1 + exp (- x))" using pos by simp
  then show "2 / (1 + exp (- x)) < 2" using den by (simp only: pos_divide_less_eq)
qed

lemma onWheel_scale_cases:
  "onWheel_scale d =
     (if 0 \<le> d then 2 / (1 + exp (- (\<bar>d\<bar> * 0.01)))
      else 1 / (2 / (1 + exp (- (\<bar>d\<bar> * 0.01)))))"
proof -
  have "0 < 1 + exp (- \<bar>d * ZOOM_ACCEL\<bar>)" by (simp add: add_pos_pos)
  then have "2 / (1 + exp (- \<bar>d * ZOOM_ACCEL\<bar>)) \<noteq> 0" by simp
  then show ?thesis
    by (simp add: onWheel_scale_def Let_def ZOOM_ACCEL_def abs_mult not_le)
qed

lemma onWheel_scale_bounds: "1 / 2 < onWheel_scale d \<and> onWheel_scale d < 2"
proof -
  define x where "x = \<bar>d\<bar> * (0.01::real)"
  have x: "0 \<le> x" by (simp add: x_def)
  define s where "s = 2 / (1 + exp (- x))"
  have s: "1 \<le> s" "s < 2" using saturating_bounds [OF x] by (simp_all add: s_def)
  have inv: "1 / 2 < 1 / s" "1 / s < 2" using s by (simp_all add: field_simps)
  have "onWheel_scale d = (if 0 \<le> d then s else 1 / s)"
    unfolding s_def x_def by (rule onWheel_scale_cases)
  then show ?thesis using s inv by (simp split: if_splits)
qed















section \<open>Ignored events\<close>

text \<open>
  C6. An event whose type is none of the nine gesture types is not handled:
  \<open>handleEvent\<close> returns \<open>false\<close>, nothing is raised and no callback is invoked. The
  controller only keeps the ViewportState it constructed on entry.
\<close>

theorem unknown_event_ignored:
  assumes "ev_type e \<notin> set GESTURE_EVENTS"
  shows "handleEvent e c = (VBool False, c\<lparr>viewState := Some (fresh_viewState c)\<rparr>, [])"
  using assms by (simp add: handleEvent_def Let_def GESTURE_EVENTS_eq)

theorem unknown_event_ignored_witness:
  "ev_type (gesture ''click'') \<notin> set GESTURE_EVENTS \<and>
   fst (handleEvent (gesture ''click'')
          (map_controls (viewport_options [] (Some 1) (Some 2)))) = VBool False \<and>
   snd (snd (handleEvent (gesture ''click'')
          (map_controls (viewport_options [] (Some 1) (Some 2))))) = []"
proof -
  have h: "ev_type (gesture ''click'') \<notin> set GESTURE_EVENTS"
    by (simp add: gesture_def GESTURE_EVENTS_eq)
  show ?thesis
    using h unknown_event_ignored [OF h, of "map_controls (viewport_options [] (Some 1) (Some 2))"]
    by simp
qed



section \<open>Callbacks\<close>

lemma updateViewport_eq:
  "updateViewport n xp xs vs c =
     (VUndefined,
      c\<lparr>priv_state := assign (priv_state c)
                         (assign (assign [] (getInteractiveState (ViewportState c) n)) xs)\<rparr>,
      (case onViewportChange c of
         None \<Rightarrow> []
       | Some f \<Rightarrow>
           if viewport_changed (getViewportProps (ViewportState c) vs)
                (assign (assign [] (getViewportProps (ViewportState c) n)) xp)
           then [ViewportChange f (assign (assign [] (getViewportProps (ViewportState c) n)) xp)
                   (case getViewport (ViewportState c) of None \<Rightarrow> VNull | Some g \<Rightarrow> g vs)]
           else []) @
      (case onStateChange c of
         None \<Rightarrow> []
       | Some g \<Rightarrow>
           [StateChange g (assign (priv_state c)
              (assign (assign [] (getInteractiveState (ViewportState c) n)) xs))]))"
  by (simp add: updateViewport_def setState_def Let_def split: option.split)

lemma state_changes_append: "state_changes (xs @ ys) = state_changes xs @ state_changes ys"
  by (induction xs rule: state_changes.induct) simp_all

lemma viewport_changes_append:
  "viewport_changes (xs @ ys) = viewport_changes xs @ viewport_changes ys"
  by (induction xs rule: viewport_changes.induct) simp_all

lemma updateViewport_dragging:
  assumes "updateViewport n xp [(''isDragging'', VBool b)] vs c = (r, c', calls)"
  shows "isDragging c' = VBool b"
    and "onStateChange c' = onStateChange c"
    and "dragPan c' = dragPan c"
    and "dragRotate c' = dragRotate c"
    and "onStateChange c = Some g \<Longrightarrow>
           map (\<lambda>st. get st ''isDragging'') (state_changes calls) = [VBool b]"
    and "onStateChange c = Some g \<Longrightarrow> calls \<noteq> [] \<and> last calls = StateChange g (priv_state c')"
proof -
  let ?st = "assign (priv_state c)
               (assign (assign [] (getInteractiveState (ViewportState c) n)) [(''isDragging'', VBool b)])"
  have d: "get ?st ''isDragging'' = VBool b"
    by (simp add: get_assign_distinct distinct_assign distinct_assign_empty map_of_assign)
  have c': "c' = c\<lparr>priv_state := ?st\<rparr>"
    using assms by (simp add: updateViewport_eq)
  show "isDragging c' = VBool b" by (simp add: c' isDragging_def d)
  show "onStateChange c' = onStateChange c" by (simp add: c')
  show "dragPan c' = dragPan c" by (simp add: c')
  show "dragRotate c' = dragRotate c" by (simp add: c')
  show "map (\<lambda>st. get st ''isDragging'') (state_changes calls) = [VBool b]"
    if "onStateChange c = Some g"
    using assms that d
    by (auto simp add: updateViewport_eq state_changes_append split: option.splits)
  show "calls \<noteq> [] \<and> last calls = StateChange g (priv_state c')"
    if "onStateChange c = Some g"
    using assms that by (auto simp add: updateViewport_eq c')
qed

section \<open>Rotating a map by panning\<close>

lemma clamp_Fin: "js_min (Fin 1) (js_max (Fin (- 1)) (Fin x)) = Fin (min 1 (max (- 1) x))"
  by simp

lemma deltaScaleY_Fin:
  "onPanRotateMap_deltaScaleY e (Fin h) = Fin (min 1 (max (- 1) (pitch_fraction e h)))"
  by (simp add: onPanRotateMap_deltaScaleY_def pitch_fraction_def Let_def getCenter_def
      PITCH_MOUSE_THRESHOLD_def PITCH_ACCEL_def)

lemma deltaScaleY_finite:
  "\<exists>d. onPanRotateMap_deltaScaleY e height = Fin d \<and> - 1 \<le> d \<and> d \<le> 1"
proof (cases height)
  case (Fin h)
  then show ?thesis by (simp add: deltaScaleY_Fin)
next
  case PInf
  then show ?thesis
    by (simp add: onPanRotateMap_deltaScaleY_def Let_def PITCH_MOUSE_THRESHOLD_def PITCH_ACCEL_def)
next
  case NInf
  then show ?thesis
    by (simp add: onPanRotateMap_deltaScaleY_def Let_def PITCH_MOUSE_THRESHOLD_def PITCH_ACCEL_def)
next
  case NaN
  then show ?thesis
    by (simp add: onPanRotateMap_deltaScaleY_def Let_def PITCH_MOUSE_THRESHOLD_def PITCH_ACCEL_def)
qed

text \<open>
  C8. A panmove that rotates a map-like state passes to \<open>rotate\<close> a pitch fraction
  \<open>deltaScaleY\<close> that is always a number between -1 and 1, whatever the event and
  the viewport's height are; for a finite height \<open>h\<close> it is the clamped value of
  \<open>deltaY / (startY - h) * 1.2\<close> when dragging down (\<open>deltaY > 0\<close>) from a start
  point more than 5 pixels from the bottom edge, of \<open>1 - centerY / startY\<close> when
  dragging up (\<open>deltaY < 0\<close>) from a start point beyond 5 pixels, and of 0 otherwise.
\<close>

theorem pan_rotate_map_pitch:
  assumes "ev_type e = ''panmove''" and "isFunctionKeyPressed e \<or> rightButton e"
    and "dragRotate c" and "instanceofMapState (ViewportState c) (fresh_viewState c)"
  shows "handleEvent e c =
           updateViewport
             (rotate_vs (ViewportState c)
                (js_div (Fin (deltaX e))
                   (ToNumber (get (getViewportProps (ViewportState c) (fresh_viewState c)) ''width'')))
                (Some (onPanRotateMap_deltaScaleY e
                   (ToNumber (get (getViewportProps (ViewportState c) (fresh_viewState c)) ''height''))))
                (fresh_viewState c))
             NO_TRANSITION_PROPS [(''isDragging'', VBool True)] (fresh_viewState c)
             (c\<lparr>viewState := Some (fresh_viewState c)\<rparr>)
         \<and> (\<forall>height. \<exists>d. onPanRotateMap_deltaScaleY e height = Fin d \<and> - 1 \<le> d \<and> d \<le> 1)
         \<and> (\<forall>h. onPanRotateMap_deltaScaleY e (Fin h) =
                 Fin (min 1 (max (- 1)
                   (if 0 < deltaY e \<and> 5 < \<bar>h - (snd (getCenter e) - deltaY e)\<bar>
                    then deltaY e / ((snd (getCenter e) - deltaY e) - h) * 1.2
                    else if deltaY e < 0 \<and> 5 < snd (getCenter e) - deltaY e
                    then 1 - snd (getCenter e) / (snd (getCenter e) - deltaY e)
                    else 0))))"
proof (intro conjI allI)
  show "handleEvent e c =
           updateViewport
             (rotate_vs (ViewportState c)
                (js_div (Fin (deltaX e))
                   (ToNumber (get (getViewportProps (ViewportState c) (fresh_viewState c)) ''width'')))
                (Some (onPanRotateMap_deltaScaleY e
                   (ToNumber (get (getViewportProps (ViewportState c) (fresh_viewState c)) ''height''))))
                (fresh_viewState c))
             NO_TRANSITION_PROPS [(''isDragging'', VBool True)] (fresh_viewState c)
             (c\<lparr>viewState := Some (fresh_viewState c)\<rparr>)"
    using assms
    by (simp add: handleEvent_panmove onPan_def onPanRotate_def onPanRotateMap_def Let_def)
next
  fix height
  show "\<exists>d. onPanRotateMap_deltaScaleY e height = Fin d \<and> - 1 \<le> d \<and> d \<le> 1"
    by (rule deltaScaleY_finite)
next
  fix h
  show "onPanRotateMap_deltaScaleY e (Fin h) =
                 Fin (min 1 (max (- 1)
                   (if 0 < deltaY e \<and> 5 < \<bar>h - (snd (getCenter e) - deltaY e)\<bar>
                    then deltaY e / ((snd (getCenter e) - deltaY e) - h) * 1.2
                    else if deltaY e < 0 \<and> 5 < snd (getCenter e) - deltaY e
                    then 1 - snd (getCenter e) / (snd (getCenter e) - deltaY e)
                    else 0)))"
    by (simp add: deltaScaleY_Fin pitch_fraction_def Let_def getCenter_def)
qed

theorem pan_rotate_map_pitch_witness:
  "ev_type ((gesture ''panmove'')\<lparr>offsetCenter := (0, 110), deltaY := 10, rightButton := True\<rparr>)
     = ''panmove'' \<and>
   rightButton ((gesture ''panmove'')\<lparr>offsetCenter := (0, 110), deltaY := 10, rightButton := True\<rparr>) \<and>
   dragRotate (map_controls (viewport_options [(''height'', VNum (Fin 400))] (Some 1) None)) \<and>
   onPanRotateMap_deltaScaleY
     ((gesture ''panmove'')\<lparr>offsetCenter := (0, 110), deltaY := 10, rightButton := True\<rparr>)
     (Fin 400) = Fin (- (1 / 25))"
proof -
  let ?e = "(gesture ''panmove'')\<lparr>offsetCenter := (0, 110), deltaY := 10, rightButton := True\<rparr>"
  let ?c = "map_controls (viewport_options [(''height'', VNum (Fin 400))] (Some 1) None)"
  have h1: "ev_type ?e = ''panmove''" by (simp add: gesture_def)
  have h2: "isFunctionKeyPressed ?e \<or> rightButton ?e" by simp
  have h3: "dragRotate ?c"
    by (simp add: map_controls_def setOptions_toggles viewport_options_def empty_options_def
        default_to_def)
  have h4: "instanceofMapState (ViewportState ?c) (fresh_viewState ?c)"
    by (simp add: map_controls_fields MapState_def)
  have "onPanRotateMap_deltaScaleY ?e (Fin 400) = Fin (- (1 / 25))"
    using pan_rotate_map_pitch [OF h1 h2 h3 h4, THEN conjunct2, THEN conjunct2, rule_format, of 400]
    by (simp add: gesture_def getCenter_def)
  then show ?thesis using h1 h3 by simp
qed

section \<open>Dragging\<close>

lemma dragging_reports_append:
  "dragging_reports (xs @ ys) = dragging_reports xs @ dragging_reports ys"
  by (simp add: dragging_reports_def state_changes_append)

lemma handleEvents_append:
  "handleEvents (xs @ ys) c =
     (fst (handleEvents ys (fst (handleEvents xs c))),
      snd (handleEvents xs c) @ snd (handleEvents ys (fst (handleEvents xs c))))"
  by (induction xs arbitrary: c) (simp_all add: split_beta)

lemma handleEvents_Cons:
  "handleEvents (e # es) c =
     (fst (handleEvents es (fst (snd (handleEvent e c)))),
      snd (snd (handleEvent e c)) @ snd (handleEvents es (fst (snd (handleEvent e c)))))"
  by (simp add: split_beta)

lemma pan_disabled_cong:
  "dragPan c' = dragPan c \<Longrightarrow> dragRotate c' = dragRotate c \<Longrightarrow> pan_disabled c' e = pan_disabled c e"
  by (simp add: pan_disabled_def)

lemma updateViewport_dragging_reports:
  assumes "onStateChange c = Some g"
  shows "dragging_reports (snd (snd (updateViewport n xp [(''isDragging'', VBool b)] vs c))) = [VBool b]"
proof -
  obtain r c' calls where u: "updateViewport n xp [(''isDragging'', VBool b)] vs c = (r, c', calls)"
    by (cases "updateViewport n xp [(''isDragging'', VBool b)] vs c")
  show ?thesis using updateViewport_dragging(5) [OF u assms] by (simp add: u dragging_reports_def)
qed

lemma updateViewport_dragging_state:
  "isDragging (fst (snd (updateViewport n xp [(''isDragging'', VBool b)] vs c))) = VBool b"
  "onStateChange (fst (snd (updateViewport n xp [(''isDragging'', VBool b)] vs c))) = onStateChange c"
  "dragPan (fst (snd (updateViewport n xp [(''isDragging'', VBool b)] vs c))) = dragPan c"
  "dragRotate (fst (snd (updateViewport n xp [(''isDragging'', VBool b)] vs c))) = dragRotate c"
proof -
  obtain r c' calls where u: "updateViewport n xp [(''isDragging'', VBool b)] vs c = (r, c', calls)"
    by (cases "updateViewport n xp [(''isDragging'', VBool b)] vs c")
  note F = updateViewport_dragging [OF u]
  show "isDragging (fst (snd (updateViewport n xp [(''isDragging'', VBool b)] vs c))) = VBool b"
    using F(1) by (simp add: u)
  show "onStateChange (fst (snd (updateViewport n xp [(''isDragging'', VBool b)] vs c))) = onStateChange c"
    using F(2) by (simp add: u)
  show "dragPan (fst (snd (updateViewport n xp [(''isDragging'', VBool b)] vs c))) = dragPan c"
    using F(3) by (simp add: u)
  show "dragRotate (fst (snd (updateViewport n xp [(''isDragging'', VBool b)] vs c))) = dragRotate c"
    using F(4) by (simp add: u)
qed

lemma updateViewport_last_call:
  assumes "onStateChange c = Some g"
  shows "snd (snd (updateViewport n xp [(''isDragging'', VBool b)] vs c)) \<noteq> [] \<and>
         last (snd (snd (updateViewport n xp [(''isDragging'', VBool b)] vs c))) =
           StateChange g (priv_state (fst (snd (updateViewport n xp [(''isDragging'', VBool b)] vs c))))"
proof -
  obtain r c' calls where u: "updateViewport n xp [(''isDragging'', VBool b)] vs c = (r, c', calls)"
    by (cases "updateViewport n xp [(''isDragging'', VBool b)] vs c")
  show ?thesis using updateViewport_dragging(6) [OF u assms] by (simp add: u)
qed

lemma onPan_enabled:
  assumes "\<not> pan_disabled c e"
  shows "\<exists>n. onPan e vs c =
           updateViewport n NO_TRANSITION_PROPS [(''isDragging'', VBool True)] vs c"
proof (cases "isFunctionKeyPressed e \<or> rightButton e")
  case True
  then have r: "dragRotate c" using assms by (simp add: pan_disabled_def)
  show ?thesis
  proof (cases "instanceofMapState (ViewportState c) vs")
    case True
    with \<open>isFunctionKeyPressed e \<or> rightButton e\<close> r show ?thesis
      by (auto simp add: onPan_def onPanRotate_def onPanRotateMap_def Let_def intro!: exI)
  next
    case False
    with \<open>isFunctionKeyPressed e \<or> rightButton e\<close> r show ?thesis
      by (auto simp add: onPan_def onPanRotate_def onPanRotateStandard_def Let_def intro!: exI)
  qed
next
  case False
  then have "dragPan c" using assms by (simp add: pan_disabled_def)
  with False show ?thesis by (auto simp add: onPan_def onPanMove_def Let_def intro!: exI)
qed

lemma onPan_disabled: "pan_disabled c e \<Longrightarrow> onPan e vs c = (VBool False, c, [])"
  by (simp add: onPan_def onPanRotate_def onPanMove_def pan_disabled_def)

lemma panstart_step:
  assumes "ev_type e = ''panstart''"
  shows "isDragging (fst (snd (handleEvent e c))) = VBool True"
    and "onStateChange (fst (snd (handleEvent e c))) = onStateChange c"
    and "dragPan (fst (snd (handleEvent e c))) = dragPan c"
    and "dragRotate (fst (snd (handleEvent e c))) = dragRotate c"
    and "onStateChange c = Some g \<Longrightarrow> dragging_reports (snd (snd (handleEvent e c))) = [VBool True]"
  using assms
  by (simp_all add: handleEvent_panstart onPanStart_def Let_def updateViewport_dragging_state
      updateViewport_dragging_reports)

lemma panmove_step:
  assumes "ev_type e = ''panmove''"
  shows "isDragging c = VBool True \<Longrightarrow> isDragging (fst (snd (handleEvent e c))) = VBool True"
    and "onStateChange (fst (snd (handleEvent e c))) = onStateChange c"
    and "dragPan (fst (snd (handleEvent e c))) = dragPan c"
    and "dragRotate (fst (snd (handleEvent e c))) = dragRotate c"
    and "onStateChange c = Some g \<Longrightarrow>
           dragging_reports (snd (snd (handleEvent e c))) =
             (if pan_disabled c e then [] else [VBool True])"
proof -
  let ?c1 = "c\<lparr>viewState := Some (fresh_viewState c)\<rparr>"
  have pd: "pan_disabled ?c1 e = pan_disabled c e" by (simp add: pan_disabled_def)
  have h: "handleEvent e c = onPan e (fresh_viewState c) ?c1"
    using assms by (rule handleEvent_panmove)
  have goal:
    "(isDragging c = VBool True \<longrightarrow> isDragging (fst (snd (handleEvent e c))) = VBool True)
     \<and> onStateChange (fst (snd (handleEvent e c))) = onStateChange c
     \<and> dragPan (fst (snd (handleEvent e c))) = dragPan c
     \<and> dragRotate (fst (snd (handleEvent e c))) = dragRotate c
     \<and> (onStateChange c = Some g \<longrightarrow>
           dragging_reports (snd (snd (handleEvent e c))) =
             (if pan_disabled c e then [] else [VBool True]))"
  proof (cases "pan_disabled c e")
    case True
    then have "handleEvent e c = (VBool False, ?c1, [])"
      using pd by (simp add: h onPan_disabled)
    then show ?thesis using True by (simp add: isDragging_def dragging_reports_def)
  next
    case False
    then obtain n where "onPan e (fresh_viewState c) ?c1 =
        updateViewport n NO_TRANSITION_PROPS [(''isDragging'', VBool True)] (fresh_viewState c) ?c1"
      using onPan_enabled [of ?c1 e] pd by blast
    then show ?thesis
      using False
      by (simp add: h updateViewport_dragging_state updateViewport_dragging_reports)
  qed
  show "isDragging c = VBool True \<Longrightarrow> isDragging (fst (snd (handleEvent e c))) = VBool True"
    and "onStateChange (fst (snd (handleEvent e c))) = onStateChange c"
    and "dragPan (fst (snd (handleEvent e c))) = dragPan c"
    and "dragRotate (fst (snd (handleEvent e c))) = dragRotate c"
    and "onStateChange c = Some g \<Longrightarrow>
           dragging_reports (snd (snd (handleEvent e c))) =
             (if pan_disabled c e then [] else [VBool True])"
    using goal by simp_all
qed

lemma panend_step:
  assumes "ev_type e = ''panend''"
  shows "isDragging (fst (snd (handleEvent e c))) = VBool False"
    and "onStateChange c = Some g \<Longrightarrow> dragging_reports (snd (snd (handleEvent e c))) = [VBool False]"
    and "onStateChange c = Some g \<Longrightarrow>
           snd (snd (handleEvent e c)) \<noteq> [] \<and>
           last (snd (snd (handleEvent e c))) = StateChange g (priv_state (fst (snd (handleEvent e c))))"
  using assms
  by (simp_all add: handleEvent_panend onPanEnd_def Let_def updateViewport_dragging_state
      updateViewport_dragging_reports updateViewport_last_call)

lemma panmoves:
  assumes "\<forall>e \<in> set es. ev_type e = ''panmove''"
    and "isDragging c = VBool True" and "onStateChange c = Some g"
  shows "isDragging (fst (handleEvents es c)) = VBool True
       \<and> onStateChange (fst (handleEvents es c)) = Some g
       \<and> dragging_reports (snd (handleEvents es c)) =
           replicate (length (filter (\<lambda>e. \<not> pan_disabled c e) es)) (VBool True)"
  using assms
proof (induction es arbitrary: c)
  case Nil
  then show ?case by (simp add: dragging_reports_def)
next
  case (Cons e es)
  let ?c' = "fst (snd (handleEvent e c))"
  have e: "ev_type e = ''panmove''" using Cons.prems(1) by simp
  have d: "isDragging ?c' = VBool True" using panmove_step(1) [OF e, of c] Cons.prems(2) by blast
  have o: "onStateChange ?c' = Some g" using panmove_step(2) [OF e, of c] Cons.prems(3) by simp
  have pd: "pan_disabled ?c' = pan_disabled c"
    using panmove_step(3,4) [OF e, of c] by (auto simp add: pan_disabled_def fun_eq_iff)
  have r: "dragging_reports (snd (snd (handleEvent e c))) =
             (if pan_disabled c e then [] else [VBool True])"
    using panmove_step(5) [OF e, of c g] Cons.prems(3) by blast
  have IH: "isDragging (fst (handleEvents es ?c')) = VBool True
       \<and> onStateChange (fst (handleEvents es ?c')) = Some g
       \<and> dragging_reports (snd (handleEvents es ?c')) =
           replicate (length (filter (\<lambda>e. \<not> pan_disabled c e) es)) (VBool True)"
    using Cons.IH [of ?c'] Cons.prems(1) d o pd by simp
  show ?case
    using IH r by (simp add: handleEvents_Cons dragging_reports_append del: handleEvents.simps(2))
qed

text \<open>
  C9. For a panstart, any number of panmove events and a panend, handled in this order
  by a controller with \<open>onStateChange\<close>: the states reported through
  \<open>onStateChange\<close> have \<open>isDragging = true\<close> for the panstart and for every panmove
  that is handled (one whose toggle is off reports nothing), and \<open>isDragging = false\<close>
  for the panend; the controller's own \<open>isDragging\<close> is true after the panstart and
  after every panmove, and false at the end; the last callback invoked is the
  \<open>onStateChange\<close> of the panend.
\<close>

theorem pan_sequence_dragging:
  assumes "ev_type e0 = ''panstart''" and "\<forall>e \<in> set es. ev_type e = ''panmove''"
    and "ev_type e1 = ''panend''" and "onStateChange c = Some g"
  shows "dragging_reports (snd (handleEvents (e0 # es @ [e1]) c)) =
           replicate (Suc (length (filter (\<lambda>e. \<not> pan_disabled c e) es))) (VBool True) @
           [VBool False]
       \<and> (\<forall>k \<le> length es. isDragging (fst (handleEvents (e0 # take k es) c)) = VBool True)
       \<and> isDragging (fst (handleEvents (e0 # es @ [e1]) c)) = VBool False
       \<and> snd (handleEvents (e0 # es @ [e1]) c) \<noteq> []
       \<and> last (snd (handleEvents (e0 # es @ [e1]) c)) =
           StateChange g (priv_state (fst (handleEvents (e0 # es @ [e1]) c)))"
proof -
  let ?c0 = "fst (snd (handleEvent e0 c))"
  have d0: "isDragging ?c0 = VBool True" by (rule panstart_step(1) [OF assms(1)])
  have o0: "onStateChange ?c0 = Some g" using panstart_step(2) [OF assms(1), of c] assms(4) by simp
  have pd: "pan_disabled ?c0 = pan_disabled c"
    using panstart_step(3,4) [OF assms(1), of c] by (auto simp add: pan_disabled_def fun_eq_iff)
  have r0: "dragging_reports (snd (snd (handleEvent e0 c))) = [VBool True]"
    using panstart_step(5) [OF assms(1) assms(4)] .
  have moves: "isDragging (fst (handleEvents xs ?c0)) = VBool True
       \<and> onStateChange (fst (handleEvents xs ?c0)) = Some g
       \<and> dragging_reports (snd (handleEvents xs ?c0)) =
           replicate (length (filter (\<lambda>e. \<not> pan_disabled c e) xs)) (VBool True)"
    if "\<forall>e \<in> set xs. ev_type e = ''panmove''" for xs
    using panmoves [OF that d0 o0] pd by simp
  let ?c1 = "fst (handleEvents es ?c0)"
  note m = moves [OF assms(2)]
  have o1: "onStateChange ?c1 = Some g" using m by simp
  have whole: "handleEvents (e0 # es @ [e1]) c =
      (fst (snd (handleEvent e1 ?c1)),
       snd (snd (handleEvent e0 c)) @ snd (handleEvents es ?c0) @ snd (snd (handleEvent e1 ?c1)))"
    by (simp add: handleEvents_Cons handleEvents_append del: handleEvents.simps(2))
  have a: "dragging_reports (snd (handleEvents (e0 # es @ [e1]) c)) =
           replicate (Suc (length (filter (\<lambda>e. \<not> pan_disabled c e) es))) (VBool True) @
           [VBool False]"
    using r0 m panend_step(2) [OF assms(3) o1]
    by (simp add: whole dragging_reports_append del: handleEvents.simps(2))
  have b: "\<forall>k \<le> length es. isDragging (fst (handleEvents (e0 # take k es) c)) = VBool True"
  proof (intro allI impI)
    fix k assume "k \<le> length es"
    have "\<forall>e \<in> set (take k es). ev_type e = ''panmove''"
      using assms(2) by (meson in_set_takeD)
    then show "isDragging (fst (handleEvents (e0 # take k es) c)) = VBool True"
      using moves by (simp add: handleEvents_Cons del: handleEvents.simps(2))
  qed
  have c: "isDragging (fst (handleEvents (e0 # es @ [e1]) c)) = VBool False"
    using panend_step(1) [OF assms(3), of ?c1] by (simp add: whole del: handleEvents.simps(2))
  have d: "snd (handleEvents (e0 # es @ [e1]) c) \<noteq> []
       \<and> last (snd (handleEvents (e0 # es @ [e1]) c)) =
           StateChange g (priv_state (fst (handleEvents (e0 # es @ [e1]) c)))"
    using panend_step(3) [OF assms(3) o1] by (simp add: whole del: handleEvents.simps(2))
  show ?thesis using a b c d by blast
qed

theorem pan_sequence_dragging_witness:
  "ev_type (gesture ''panstart'') = ''panstart'' \<and>
   ev_type (gesture ''panmove'') = ''panmove'' \<and>
   ev_type (gesture ''panend'') = ''panend'' \<and>
   onStateChange (map_controls (viewport_options [] (Some 1) (Some 2))) = Some 2 \<and>
   dragging_reports
     (snd (handleEvents
        [gesture ''panstart'', gesture ''panmove'', gesture ''panmove'', gesture ''panend'']
        (map_controls (viewport_options [] (Some 1) (Some 2))))) =
     [VBool True, VBool True, VBool True, VBool False]"
proof -
  let ?c = "map_controls (viewport_options [] (Some 1) (Some 2))"
  have h1: "ev_type (gesture ''panstart'') = ''panstart''" by (simp add: gesture_def)
  have h2: "\<forall>e \<in> set [gesture ''panmove'', gesture ''panmove'']. ev_type e = ''panmove''"
    by (simp add: gesture_def)
  have h3: "ev_type (gesture ''panend'') = ''panend''" by (simp add: gesture_def)
  have h4: "onStateChange ?c = Some 2"
    by (simp add: map_controls_fields viewport_options_def empty_options_def default_to_def)
  have en: "\<not> pan_disabled ?c (gesture ''panmove'')"
    by (simp add: pan_disabled_def isFunctionKeyPressed_def gesture_def plain_src_event_def
        map_controls_def setOptions_toggles viewport_options_def empty_options_def default_to_def)
  show ?thesis
    using h1 h2 h3 h4 en pan_sequence_dragging [OF h1 h2 h3 h4, THEN conjunct1]
    by (simp add: numeral_2_eq_2)
qed

section \<open>Zooming a map-like state\<close>

lemma MapState_fields:
  "new_ViewportState (MapState other) = new_MapState"
  "getViewportProps (MapState other) = viewportProps"
  "getInteractiveState (MapState other) = interactiveState"
  "zoom (MapState other) = MapState_zoom"
  "getViewport (MapState other) = getViewport other"
  by (simp_all add: MapState_def)

lemma distinct_new_MapState: "distinct (map fst (viewportProps (new_MapState p)))"
  by (simp add: new_MapState_def distinct_restr distinct_assign_empty)

lemma viewport_changed_key:
  "key \<in> set (keys newViewport) \<Longrightarrow> strict_neq (get oldViewport key) (get newViewport key) \<Longrightarrow>
   viewport_changed oldViewport newViewport"
  by (auto simp add: viewport_changed_def list_ex_iff)

lemma viewport_changes_updateViewport:
  "viewport_changes (snd (snd (updateViewport n xp xs vs c))) =
     (if onViewportChange c \<noteq> None \<and>
         viewport_changed (getViewportProps (ViewportState c) vs)
           (assign (assign [] (getViewportProps (ViewportState c) n)) xp)
      then [assign (assign [] (getViewportProps (ViewportState c) n)) xp] else [])"
  by (simp add: updateViewport_eq viewport_changes_append split: option.split)

lemma MapState_zoom_props:
  assumes z: "get (viewportProps vs) ''zoom'' = VNum (Fin z)"
  shows "viewportProps (MapState_zoom pos s vs) =
           AList.update ''zoom'' (VNum (Fin (max 0 (z * s)))) (viewportProps vs)"
  by (simp add: MapState_zoom_def z ToNumber_def)

lemma get_update: "get (AList.update k v al) k' = (if k' = k then v else get al k')"
  by (simp add: get_def update_conv')

lemma get_assign_empty: "distinct (map fst p) \<Longrightarrow> get (assign [] p) k = get p k"
  by (simp add: get_assign_distinct) (simp add: get_def split: option.split)

lemma get_merged:
  assumes "distinct (map fst p)" and "distinct (map fst xp)"
  shows "get (assign (assign [] p) xp) k =
           (case map_of xp k of None \<Rightarrow> get p k | Some v \<Rightarrow> v)"
  by (simp add: get_assign_distinct [OF assms(2)] get_assign_empty [OF assms(1)]
      cong: option.case_cong)

lemma MapState_zoom_call:
  assumes cls: "ViewportState c = MapState other"
    and f: "onViewportChange c \<noteq> None"
    and z: "get (viewportProps vs) ''zoom'' = VNum (Fin z)"
    and d: "distinct (map fst (viewportProps vs))"
    and ne: "max 0 (z * s) \<noteq> z"
    and dx: "distinct (map fst xp)" and zx: "map_of xp ''zoom'' = None"
  shows "\<exists>p. viewport_changes (snd (snd (updateViewport (zoom (ViewportState c) pos s vs) xp xs vs c))) = [p]
           \<and> get p ''zoom'' = VNum (Fin (max 0 (z * s)))
           \<and> get p ''transitionDuration'' =
               (case map_of xp ''transitionDuration'' of
                  None \<Rightarrow> get (viewportProps vs) ''transitionDuration'' | Some v \<Rightarrow> v)"
proof -
  let ?n = "AList.update ''zoom'' (VNum (Fin (max 0 (z * s)))) (viewportProps vs)"
  let ?p = "assign (assign [] ?n) xp"
  have dn: "distinct (map fst ?n)" using d by (rule distinct_update)
  have g: "get ?p k = (case map_of xp k of None \<Rightarrow> get ?n k | Some v \<Rightarrow> v)" for k
    using dn dx by (rule get_merged)
  have gz: "get ?p ''zoom'' = VNum (Fin (max 0 (z * s)))"
    by (simp add: g zx get_update)
  have gt: "get ?p ''transitionDuration'' =
               (case map_of xp ''transitionDuration'' of
                  None \<Rightarrow> get (viewportProps vs) ''transitionDuration'' | Some v \<Rightarrow> v)"
    by (simp add: g get_update split: option.split)
  have k: "''zoom'' \<in> set (keys ?p)"
    unfolding set_keys_assign by (simp add: keys_def dom_update)
  have "strict_neq (get (viewportProps vs) ''zoom'') (get ?p ''zoom'')"
    using ne by (simp add: z gz strict_neq_def)
  then have ch: "viewport_changed (viewportProps vs) ?p" using k by (intro viewport_changed_key)
  have "viewport_changes (snd (snd (updateViewport (zoom (ViewportState c) pos s vs) xp xs vs c))) = [?p]"
    using f ch by (simp add: viewport_changes_updateViewport cls MapState_fields MapState_zoom_props [OF z])
  then show ?thesis using gz gt by blast
qed

lemma fresh_viewState_MapState:
  "ViewportState c = MapState other \<Longrightarrow>
   fresh_viewState c = new_MapState (assign (assign [] (viewStateProps c)) (priv_state c))"
  by (simp add: fresh_viewState_def MapState_fields)

lemma distinct_fresh_viewState:
  "ViewportState c = MapState other \<Longrightarrow> distinct (map fst (viewportProps (fresh_viewState c)))"
  by (simp add: fresh_viewState_MapState distinct_new_MapState)

lemma reported_single:
  "viewport_changes calls = [p] \<Longrightarrow>
   reported_zooms calls = [get p ''zoom''] \<and>
   reported_durations calls = [get p ''transitionDuration'']"
  by (simp add: reported_zooms_def reported_durations_def)

lemma MapState_zoom_reported:
  assumes cls: "ViewportState c = MapState other"
    and f: "onViewportChange c \<noteq> None"
    and z: "get (viewportProps vs) ''zoom'' = VNum (Fin z)"
    and d: "distinct (map fst (viewportProps vs))"
    and ne: "max 0 (z * s) \<noteq> z"
    and xp: "xp = NO_TRANSITION_PROPS \<or> xp = LINEAR_TRANSITION_PROPS"
  shows "reported_zooms (snd (snd (updateViewport (zoom (ViewportState c) pos s vs) xp xs vs c)))
           = [VNum (Fin (max 0 (z * s)))]"
    and "reported_durations (snd (snd (updateViewport (zoom (ViewportState c) pos s vs) xp xs vs c)))
           = [get xp ''transitionDuration'']"
proof -
  have dx: "distinct (map fst xp)" and zx: "map_of xp ''zoom'' = None"
    and tx: "map_of xp ''transitionDuration'' = Some (get xp ''transitionDuration'')"
    using xp by (auto simp add: NO_TRANSITION_PROPS_def LINEAR_TRANSITION_PROPS_def get_def)
  obtain p where p:
    "viewport_changes (snd (snd (updateViewport (zoom (ViewportState c) pos s vs) xp xs vs c))) = [p]"
    "get p ''zoom'' = VNum (Fin (max 0 (z * s)))"
    "get p ''transitionDuration'' =
       (case map_of xp ''transitionDuration'' of
          None \<Rightarrow> get (viewportProps vs) ''transitionDuration'' | Some v \<Rightarrow> v)"
    using MapState_zoom_call [OF cls f z d ne dx zx, of pos xs] by blast
  show "reported_zooms (snd (snd (updateViewport (zoom (ViewportState c) pos s vs) xp xs vs c)))
           = [VNum (Fin (max 0 (z * s)))]"
    using reported_single [OF p(1)] p(2) by simp
  show "reported_durations (snd (snd (updateViewport (zoom (ViewportState c) pos s vs) xp xs vs c)))
           = [get xp ''transitionDuration'']"
    using reported_single [OF p(1)] p(3) tx by simp
qed

lemma onWheel_scale_minus_100: "onWheel_scale (- 100) = (1 + exp (- 1)) / 2"
  by (simp add: onWheel_scale_cases)

lemma onWheel_scale_0: "onWheel_scale 0 = 1"
  by (simp add: onWheel_scale_cases)

lemma wheel_reported:
  assumes cls: "ViewportState c = MapState other"
    and sz: "scrollZoom c"
    and f: "onViewportChange c \<noteq> None"
    and z: "get (viewportProps (fresh_viewState c)) ''zoom'' = VNum (Fin z)"
    and e: "ev_type e = ''wheel''"
    and ne: "max 0 (z * onWheel_scale (delta e)) \<noteq> z"
  shows "reported_zooms (snd (snd (handleEvent e c))) = [VNum (Fin (max 0 (z * onWheel_scale (delta e))))]"
    and "reported_durations (snd (snd (handleEvent e c))) = [VNum (Fin 0)]"
proof -
  let ?c1 = "c\<lparr>viewState := Some (fresh_viewState c)\<rparr>"
  have h: "handleEvent e c =
      updateViewport (zoom (ViewportState ?c1) (getCenter e) (onWheel_scale (delta e)) (fresh_viewState c))
        NO_TRANSITION_PROPS [] (fresh_viewState c) ?c1"
    using e sz by (simp add: handleEvent_wheel onWheel_def Let_def)
  have cls1: "ViewportState ?c1 = MapState other" using cls by simp
  have f1: "onViewportChange ?c1 \<noteq> None" using f by simp
  note R = MapState_zoom_reported [OF cls1 f1 z distinct_fresh_viewState [OF cls] ne,
      of NO_TRANSITION_PROPS "getCenter e" "[]"]
  show "reported_zooms (snd (snd (handleEvent e c))) = [VNum (Fin (max 0 (z * onWheel_scale (delta e))))]"
    unfolding h using R(1) by simp
  show "reported_durations (snd (snd (handleEvent e c))) = [VNum (Fin 0)]"
    unfolding h using R(2) by (simp add: NO_TRANSITION_PROPS_def get_def)
qed

lemma doubletap_reported:
  assumes cls: "ViewportState c = MapState other"
    and dz: "doubleClickZoom c"
    and f: "onViewportChange c \<noteq> None"
    and z: "get (viewportProps (fresh_viewState c)) ''zoom'' = VNum (Fin z)"
    and e: "ev_type e = ''doubletap''"
    and ne: "max 0 (z * (if isFunctionKeyPressed e then 0.5 else 2)) \<noteq> z"
  shows "handleEvent e c =
      updateViewport
        (zoom (ViewportState c) (getCenter e) (if isFunctionKeyPressed e then 0.5 else 2)
           (fresh_viewState c))
        LINEAR_TRANSITION_PROPS [] (fresh_viewState c) (c\<lparr>viewState := Some (fresh_viewState c)\<rparr>)"
    and "reported_zooms (snd (snd (handleEvent e c))) =
           [VNum (Fin (max 0 (z * (if isFunctionKeyPressed e then 0.5 else 2))))]"
    and "reported_durations (snd (snd (handleEvent e c))) = [VNum (Fin 300)]"
proof -
  let ?c1 = "c\<lparr>viewState := Some (fresh_viewState c)\<rparr>"
  show h: "handleEvent e c =
      updateViewport
        (zoom (ViewportState c) (getCenter e) (if isFunctionKeyPressed e then 0.5 else 2)
           (fresh_viewState c))
        LINEAR_TRANSITION_PROPS [] (fresh_viewState c) ?c1"
    using e dz by (simp add: handleEvent_doubletap onDoubleTap_def Let_def)
  have cls1: "ViewportState ?c1 = MapState other" using cls by simp
  have f1: "onViewportChange ?c1 \<noteq> None" using f by simp
  note R = MapState_zoom_reported [OF cls1 f1 z distinct_fresh_viewState [OF cls] ne,
      of LINEAR_TRANSITION_PROPS "getCenter e" "[]"]
  show "reported_zooms (snd (snd (handleEvent e c))) =
           [VNum (Fin (max 0 (z * (if isFunctionKeyPressed e then 0.5 else 2))))]"
    unfolding h using R(1) by simp
  show "reported_durations (snd (snd (handleEvent e c))) = [VNum (Fin 300)]"
    unfolding h using R(2) by (simp add: LINEAR_TRANSITION_PROPS_def get_def)
qed

lemma get_restrict: "get (AList.restrict A al) k = (if k \<in> A then get al k else VUndefined)"
  by (simp add: get_def restr_conv' restrict_map_def)

lemma map_controls_viewportProps:
  assumes d: "distinct (map fst (options_obj opts))" and k: "k \<in> set VIEWPORT_PROPS_KEYS"
  shows "get (viewportProps (fresh_viewState (map_controls opts))) k = get (options_obj opts) k"
proof -
  let ?X = "assign (assign [] (options_obj opts)) [(''isDragging'', VBool False)]"
  have kd: "k \<noteq> ''isDragging''" using k by (auto simp add: VIEWPORT_PROPS_KEYS_def)
  have dX: "distinct (map fst ?X)" by (simp add: distinct_assign distinct_assign_empty)
  have "get (viewportProps (fresh_viewState (map_controls opts))) k = get (assign [] ?X) k"
    using k by (simp add: fresh_viewState_MapState [OF map_controls_fields(1)] map_controls_fields
        new_MapState_def get_restrict)
  also have "\<dots> = get ?X k" using dX by (rule get_assign_empty)
  also have "\<dots> = get (assign [] (options_obj opts)) k" using kd by (simp add: get_assign_single)
  also have "\<dots> = get (options_obj opts) k" using d by (rule get_assign_empty)
  finally show ?thesis .
qed

lemma example_zoom_10:
  "get (viewportProps (fresh_viewState (map_controls
     (viewport_options
        [(''zoom'', VNum (Fin 10)), (''bearing'', VNum (Fin 0)), (''pitch'', VNum (Fin 0))]
        (Some 1) None)))) ''zoom'' = VNum (Fin 10)"
  by (subst map_controls_viewportProps)
     (simp_all add: options_obj_def viewport_options_def empty_options_def toggle_prop_def
       get_def VIEWPORT_PROPS_KEYS_def)

lemma example_zoom_5:
  "get (viewportProps (fresh_viewState (map_controls
     (viewport_options [(''zoom'', VNum (Fin 5))] (Some 1) None)))) ''zoom'' = VNum (Fin 5)"
  by (subst map_controls_viewportProps)
     (simp_all add: options_obj_def viewport_options_def empty_options_def toggle_prop_def
       get_def VIEWPORT_PROPS_KEYS_def)

lemma example_toggles:
  "scrollZoom (map_controls (viewport_options ps f g))"
  "doubleClickZoom (map_controls (viewport_options ps f g))"
  by (simp_all add: map_controls_def setOptions_toggles viewport_options_def empty_options_def
      default_to_def)

lemma example_callback:
  "onViewportChange (map_controls (viewport_options ps f g)) = f"
  by (simp add: map_controls_fields viewport_options_def empty_options_def)

text \<open>
  C1, as amended. On a map-like state with zoom 10, a controller with \<open>scrollZoom\<close>
  and \<open>onViewportChange\<close> that handles a wheel event with \<open>delta = -100\<close> invokes
  \<open>onViewportChange\<close> exactly once, with the zoom decreased: the scale is the
  reciprocal of the saturating value, \<open>(1 + e^(-1)) / 2\<close>, which is below 1, so the
  proposed zoom is 10 times that, below 10. The object passed has
  \<open>transitionDuration\<close> 0. The zoom of the map-like state is the specification's:
  the level is multiplied by the scale.
\<close>

theorem wheel_negative_delta_zooms_out:
  assumes "ViewportState c = MapState other" and "scrollZoom c"
    and "onViewportChange c = Some f"
    and "get (viewportProps (fresh_viewState c)) ''zoom'' = VNum (Fin 10)"
    and "ev_type e = ''wheel''" and "delta e = - 100"
  shows "fst (handleEvent e c) = VUndefined
       \<and> reported_zooms (snd (snd (handleEvent e c))) = [VNum (Fin (10 * onWheel_scale (- 100)))]
       \<and> onWheel_scale (- 100) = 1 / (2 / (1 + exp (- (\<bar>- 100\<bar> * 0.01))))
       \<and> 10 * onWheel_scale (- 100) < 10
       \<and> reported_durations (snd (snd (handleEvent e c))) = [VNum (Fin 0)]"
proof -
  have s: "onWheel_scale (- 100) = (1 + exp (- 1)) / 2" by (rule onWheel_scale_minus_100)
  have e1: "exp (- 1) < (1::real)" by simp
  have lt: "10 * onWheel_scale (- 100) < 10" using e1 by (simp add: s)
  have pos: "0 < onWheel_scale (- 100)" using onWheel_scale_bounds [of "- 100"] by simp
  have mx: "max 0 (10 * onWheel_scale (delta e)) = 10 * onWheel_scale (- 100)"
    using pos by (simp add: assms(6))
  have ne: "max 0 (10 * onWheel_scale (delta e)) \<noteq> 10" using lt mx by simp
  have f: "onViewportChange c \<noteq> None" using assms(3) by simp
  note R = wheel_reported [OF assms(1) assms(2) f assms(4) assms(5) ne]
  have r: "fst (handleEvent e c) = VUndefined"
    using assms(2,5) by (simp add: handleEvent_wheel onWheel_def Let_def updateViewport_eq)
  have s': "onWheel_scale (- 100) = 1 / (2 / (1 + exp (- (\<bar>- 100\<bar> * 0.01))))"
    by (simp add: s)
  have z: "reported_zooms (snd (snd (handleEvent e c))) = [VNum (Fin (10 * onWheel_scale (- 100)))]"
    using R(1) unfolding mx .
  show ?thesis using r z s' lt R(2) by blast
qed

theorem wheel_negative_delta_zooms_out_witness:
  "ViewportState (map_controls (viewport_options
      [(''zoom'', VNum (Fin 10)), (''bearing'', VNum (Fin 0)), (''pitch'', VNum (Fin 0))]
      (Some 1) None)) = MapState inert_operations \<and>
   scrollZoom (map_controls (viewport_options
      [(''zoom'', VNum (Fin 10)), (''bearing'', VNum (Fin 0)), (''pitch'', VNum (Fin 0))]
      (Some 1) None)) \<and>
   onViewportChange (map_controls (viewport_options
      [(''zoom'', VNum (Fin 10)), (''bearing'', VNum (Fin 0)), (''pitch'', VNum (Fin 0))]
      (Some 1) None)) = Some 1 \<and>
   ev_type ((gesture ''wheel'')\<lparr>delta := - 100\<rparr>) = ''wheel'' \<and>
   delta ((gesture ''wheel'')\<lparr>delta := - 100\<rparr>) = - 100 \<and>
   fst (handleEvent ((gesture ''wheel'')\<lparr>delta := - 100\<rparr>)
     (map_controls (viewport_options
        [(''zoom'', VNum (Fin 10)), (''bearing'', VNum (Fin 0)), (''pitch'', VNum (Fin 0))]
        (Some 1) None))) = VUndefined \<and>
   reported_durations (snd (snd (handleEvent ((gesture ''wheel'')\<lparr>delta := - 100\<rparr>)
     (map_controls (viewport_options
        [(''zoom'', VNum (Fin 10)), (''bearing'', VNum (Fin 0)), (''pitch'', VNum (Fin 0))]
        (Some 1) None))))) = [VNum (Fin 0)]"
proof -
  let ?c = "map_controls (viewport_options
      [(''zoom'', VNum (Fin 10)), (''bearing'', VNum (Fin 0)), (''pitch'', VNum (Fin 0))]
      (Some 1) None)"
  let ?e = "(gesture ''wheel'')\<lparr>delta := - 100\<rparr>"
  have h1: "ViewportState ?c = MapState inert_operations" by (rule map_controls_fields(1))
  have h2: "scrollZoom ?c" by (rule example_toggles(1))
  have h3: "onViewportChange ?c = Some 1" by (rule example_callback)
  have h4: "get (viewportProps (fresh_viewState ?c)) ''zoom'' = VNum (Fin 10)"
    by (rule example_zoom_10)
  have h5: "ev_type ?e = ''wheel''" by (simp add: gesture_def)
  have h6: "delta ?e = - 100" by simp
  show ?thesis
    using h1 h2 h3 h5 h6 wheel_negative_delta_zooms_out [OF h1 h2 h3 h4 h5 h6] by blast
qed

text \<open>
  C1 as stated fails: in the scenario the one zoom proposed is \<open>5 + 5 e^(-1)\<close>, which
  is not above 10.
\<close>

theorem wheel_zoom_increase_counterexample:
  "reported_zooms (snd (snd (handleEvent ((gesture ''wheel'')\<lparr>delta := - 100\<rparr>)
     (map_controls (viewport_options
        [(''zoom'', VNum (Fin 10)), (''bearing'', VNum (Fin 0)), (''pitch'', VNum (Fin 0))]
        (Some 1) None))))) = [VNum (Fin (5 + 5 * exp (- 1)))]
   \<and> \<not> 10 < 5 + 5 * exp (- 1 :: real)"
proof -
  let ?c = "map_controls (viewport_options
      [(''zoom'', VNum (Fin 10)), (''bearing'', VNum (Fin 0)), (''pitch'', VNum (Fin 0))]
      (Some 1) None)"
  let ?e = "(gesture ''wheel'')\<lparr>delta := - 100\<rparr>"
  have e1: "exp (- 1) < (1::real)" by simp
  have v: "max 0 (10 * onWheel_scale (delta ?e)) = 5 + 5 * exp (- 1)"
    by (simp add: onWheel_scale_minus_100 add_nonneg_nonneg)
  have ne: "max 0 (10 * onWheel_scale (delta ?e)) \<noteq> 10" unfolding v using e1 by simp
  have f: "onViewportChange ?c \<noteq> None" by (simp add: example_callback)
  have e: "ev_type ?e = ''wheel''" by (simp add: gesture_def)
  have "reported_zooms (snd (snd (handleEvent ?e ?c))) = [VNum (Fin (5 + 5 * exp (- 1)))]"
    using wheel_reported(1) [OF map_controls_fields(1) example_toggles(1) f example_zoom_10 e ne]
    unfolding v .
  moreover have "\<not> 10 < 5 + 5 * exp (- 1 :: real)" using e1 by simp
  ultimately show ?thesis by blast
qed

text \<open>
  C4. On a map-like state with zoom 5, a controller with \<open>doubleClickZoom\<close> and
  \<open>onViewportChange\<close> that handles a doubletap zooms by the scale 2, or 0.5 when a
  function key is held, and invokes \<open>onViewportChange\<close> once with zoom 10, or 2.5,
  and \<open>transitionDuration\<close> 300. The zoom of the map-like state is the
  specification's: the level is multiplied by the scale.
\<close>

theorem doubletap_zoom:
  assumes "ViewportState c = MapState other" and "doubleClickZoom c"
    and "onViewportChange c = Some f"
    and "get (viewportProps (fresh_viewState c)) ''zoom'' = VNum (Fin 5)"
    and "ev_type e = ''doubletap''"
  shows "handleEvent e c =
           updateViewport
             (zoom (ViewportState c) (getCenter e) (if isFunctionKeyPressed e then 0.5 else 2)
                (fresh_viewState c))
             LINEAR_TRANSITION_PROPS [] (fresh_viewState c)
             (c\<lparr>viewState := Some (fresh_viewState c)\<rparr>)
       \<and> reported_zooms (snd (snd (handleEvent e c))) =
           [VNum (Fin (if isFunctionKeyPressed e then 2.5 else 10))]
       \<and> reported_durations (snd (snd (handleEvent e c))) = [VNum (Fin 300)]"
proof -
  have f: "onViewportChange c \<noteq> None" using assms(3) by simp
  have mx: "max 0 (5 * (if isFunctionKeyPressed e then 0.5 else 2)) =
      (if isFunctionKeyPressed e then 2.5 else (10::real))" by simp
  have ne: "max 0 (5 * (if isFunctionKeyPressed e then 0.5 else 2)) \<noteq> (5::real)"
    unfolding mx by simp
  note R = doubletap_reported [OF assms(1) assms(2) f assms(4) assms(5) ne]
  have z: "reported_zooms (snd (snd (handleEvent e c))) =
           [VNum (Fin (if isFunctionKeyPressed e then 2.5 else 10))]"
    using R(2) unfolding mx .
  show ?thesis using R(1) z R(3) by blast
qed

theorem doubletap_zoom_witness:
  "ViewportState (map_controls (viewport_options [(''zoom'', VNum (Fin 5))] (Some 1) None))
     = MapState inert_operations \<and>
   doubleClickZoom (map_controls (viewport_options [(''zoom'', VNum (Fin 5))] (Some 1) None)) \<and>
   onViewportChange (map_controls (viewport_options [(''zoom'', VNum (Fin 5))] (Some 1) None))
     = Some 1 \<and>
   ev_type (gesture ''doubletap'') = ''doubletap'' \<and>
   reported_zooms (snd (snd (handleEvent (gesture ''doubletap'')
     (map_controls (viewport_options [(''zoom'', VNum (Fin 5))] (Some 1) None)))))
     = [VNum (Fin 10)] \<and>
   reported_durations (snd (snd (handleEvent (gesture ''doubletap'')
     (map_controls (viewport_options [(''zoom'', VNum (Fin 5))] (Some 1) None)))))
     = [VNum (Fin 300)] \<and>
   reported_zooms (snd (snd (handleEvent
     ((gesture ''doubletap'')\<lparr>srcEvent := plain_src_event\<lparr>shiftKey := True\<rparr>\<rparr>)
     (map_controls (viewport_options [(''zoom'', VNum (Fin 5))] (Some 1) None)))))
     = [VNum (Fin 2.5)]"
proof -
  let ?c = "map_controls (viewport_options [(''zoom'', VNum (Fin 5))] (Some 1) None)"
  let ?e = "gesture ''doubletap''"
  let ?e' = "(gesture ''doubletap'')\<lparr>srcEvent := plain_src_event\<lparr>shiftKey := True\<rparr>\<rparr>"
  have h1: "ViewportState ?c = MapState inert_operations" by (rule map_controls_fields(1))
  have h2: "doubleClickZoom ?c" by (rule example_toggles(2))
  have h3: "onViewportChange ?c = Some 1" by (rule example_callback)
  have h4: "get (viewportProps (fresh_viewState ?c)) ''zoom'' = VNum (Fin 5)"
    by (rule example_zoom_5)
  have h5: "ev_type ?e = ''doubletap''" by (simp add: gesture_def)
  have h5': "ev_type ?e' = ''doubletap''" by (simp add: gesture_def)
  have nk: "\<not> isFunctionKeyPressed ?e"
    by (simp add: isFunctionKeyPressed_def gesture_def plain_src_event_def)
  have fk: "isFunctionKeyPressed ?e'"
    by (simp add: isFunctionKeyPressed_def gesture_def plain_src_event_def)
  show ?thesis
    using h1 h2 h3 h5 nk fk doubletap_zoom [OF h1 h2 h3 h4 h5, THEN conjunct2]
      doubletap_zoom [OF h1 h2 h3 h4 h5', THEN conjunct2]
    by simp
qed

section \<open>When the viewport callback is invoked\<close>

lemma ends_I:
  "(xp = NO_TRANSITION_PROPS \<or> xp = LINEAR_TRANSITION_PROPS \<or> xp = []) \<Longrightarrow>
   onViewportChange c' = onViewportChange c \<Longrightarrow> ViewportState c' = ViewportState c \<Longrightarrow>
   eventManager c' = eventManager c \<Longrightarrow> priv_events c' = priv_events c \<Longrightarrow>
   ends_in_updateViewport (updateViewport n xp xs vs c') vs c"
  unfolding ends_in_updateViewport_def by blast

lemma handler_cases:
  "ends_in_updateViewport (onPanStart e vs c) vs c"
  "ends_in_updateViewport (onPanEnd e vs c) vs c"
  "ends_in_updateViewport (onPinchStart e vs c) vs c"
  "ends_in_updateViewport (onPinchEnd e vs c) vs c"
  "onPan e vs c = (VBool False, c, []) \<or> ends_in_updateViewport (onPan e vs c) vs c"
  "onPinch e vs c = (VBool False, c, []) \<or> ends_in_updateViewport (onPinch e vs c) vs c"
  "onDoubleTap e vs c = (VBool False, c, []) \<or> ends_in_updateViewport (onDoubleTap e vs c) vs c"
  "onWheel e vs c = (VBool False, c, []) \<or> ends_in_updateViewport (onWheel e vs c) vs c"
  "onKeyDown e vs c = (VBool False, c, []) \<or> ends_in_updateViewport (onKeyDown e vs c) vs c"
  by (simp_all add: onPanStart_def onPanEnd_def onPinchStart_def onPinchEnd_def onPan_def
      onPanMove_def onPanRotate_def onPanRotateMap_def onPanRotateStandard_def onPinch_def
      onDoubleTap_def onWheel_def onKeyDown_def Let_def ends_I)

lemma ends_viewState:
  "ends_in_updateViewport r vs (c\<lparr>viewState := v\<rparr>) = ends_in_updateViewport r vs c"
  by (simp add: ends_in_updateViewport_def)

lemma handleEvent_cases:
  "handleEvent e c = (VBool False, c\<lparr>viewState := Some (fresh_viewState c)\<rparr>, []) \<or>
   ends_in_updateViewport (handleEvent e c) (fresh_viewState c) c"
  using handler_cases [of e "fresh_viewState c" "c\<lparr>viewState := Some (fresh_viewState c)\<rparr>"]
  by (simp add: handleEvent_def Let_def ends_viewState)

lemma handleEvent_events_tracked:
  assumes "events_tracked c regs"
  shows "events_tracked (fst (snd (handleEvent e c))) regs"
proof -
  have "eventManager (fst (snd (handleEvent e c))) = eventManager c \<and>
        priv_events (fst (snd (handleEvent e c))) = priv_events c"
    using handleEvent_cases [of e c]
    by (auto simp add: ends_in_updateViewport_def updateViewport_eq)
  then show ?thesis using assms by (simp add: events_tracked_iff tracked_def)
qed

lemma assign_Nil: "assign a [] = a"
  by (simp add: assign_def)

lemma viewport_changed_merged:
  "viewport_changed old (assign (assign [] new) xp) =
     (\<exists>key \<in> set (keys new) \<union> set (keys xp).
        strict_neq (get old key) (get (assign (assign [] new) xp) key))"
  by (simp add: viewport_changed_def list_ex_iff set_keys_assign) (simp add: keys_def)

lemma transition_props_changed:
  assumes "xp = NO_TRANSITION_PROPS \<or> xp = LINEAR_TRANSITION_PROPS"
    and "get old ''transitionDuration'' = VUndefined"
  shows "viewport_changed old (assign (assign [] new) xp)"
proof -
  have d: "distinct (map fst xp)" and k: "''transitionDuration'' \<in> set (keys xp)"
    and v: "map_of xp ''transitionDuration'' \<noteq> Some VUndefined"
      "map_of xp ''transitionDuration'' \<noteq> None"
    using assms(1)
    by (auto simp add: NO_TRANSITION_PROPS_def LINEAR_TRANSITION_PROPS_def keys_def)
  have "get (assign (assign [] new) xp) ''transitionDuration'' \<noteq> VUndefined"
    using v by (auto simp add: get_assign_distinct [OF d] split: option.splits)
  then have "strict_neq (get old ''transitionDuration'')
      (get (assign (assign [] new) xp) ''transitionDuration'')"
    by (simp add: assms(2) strict_neq_def)
  then show ?thesis using k unfolding viewport_changed_merged by blast
qed

text \<open>
  C3, as amended. Every handler that handles its event ends in \<open>updateViewport\<close>
  (lemma \<open>handleEvent_cases\<close>). There \<open>onViewportChange\<close> is invoked, once and with
  the merged object, if and only if it is set and some property of the merged object,
  which is the new ViewportProps overwritten by the handler's extra props, differs
  (\<open>!==\<close>) from the property of the same key of the previous ViewportProps. With no
  extra props (panend, pinchend) this is the field-wise comparison of the new with the
  previous ViewportProps. With the transition props (every other handler) and previous
  ViewportProps that have no \<open>transitionDuration\<close>, the callback is always invoked.
\<close>

theorem viewport_change_iff_merged_diff:
  "(viewport_changes (snd (snd (updateViewport n xp xs vs c))) \<noteq> []) =
     (onViewportChange c \<noteq> None \<and>
      (\<exists>key \<in> set (keys (getViewportProps (ViewportState c) n)) \<union> set (keys xp).
         strict_neq (get (getViewportProps (ViewportState c) vs) key)
           (get (assign (assign [] (getViewportProps (ViewportState c) n)) xp) key)))
   \<and> (viewport_changes (snd (snd (updateViewport n xp xs vs c))) \<noteq> [] \<longrightarrow>
        viewport_changes (snd (snd (updateViewport n xp xs vs c))) =
          [assign (assign [] (getViewportProps (ViewportState c) n)) xp])
   \<and> (xp = [] \<and> distinct (map fst (getViewportProps (ViewportState c) n)) \<longrightarrow>
        (viewport_changes (snd (snd (updateViewport n xp xs vs c))) \<noteq> []) =
          (onViewportChange c \<noteq> None \<and>
           (\<exists>key \<in> set (keys (getViewportProps (ViewportState c) n)).
              strict_neq (get (getViewportProps (ViewportState c) vs) key)
                (get (getViewportProps (ViewportState c) n) key))))
   \<and> ((xp = NO_TRANSITION_PROPS \<or> xp = LINEAR_TRANSITION_PROPS) \<and>
        onViewportChange c \<noteq> None \<and>
        get (getViewportProps (ViewportState c) vs) ''transitionDuration'' = VUndefined \<longrightarrow>
        viewport_changes (snd (snd (updateViewport n xp xs vs c))) \<noteq> [])"
proof (intro conjI impI)
  show a: "(viewport_changes (snd (snd (updateViewport n xp xs vs c))) \<noteq> []) =
     (onViewportChange c \<noteq> None \<and>
      (\<exists>key \<in> set (keys (getViewportProps (ViewportState c) n)) \<union> set (keys xp).
         strict_neq (get (getViewportProps (ViewportState c) vs) key)
           (get (assign (assign [] (getViewportProps (ViewportState c) n)) xp) key)))"
    by (simp add: viewport_changes_updateViewport viewport_changed_merged)
  show "viewport_changes (snd (snd (updateViewport n xp xs vs c))) =
          [assign (assign [] (getViewportProps (ViewportState c) n)) xp]"
    if "viewport_changes (snd (snd (updateViewport n xp xs vs c))) \<noteq> []"
    using that by (simp add: viewport_changes_updateViewport split: if_splits)
  show "(viewport_changes (snd (snd (updateViewport n xp xs vs c))) \<noteq> []) =
          (onViewportChange c \<noteq> None \<and>
           (\<exists>key \<in> set (keys (getViewportProps (ViewportState c) n)).
              strict_neq (get (getViewportProps (ViewportState c) vs) key)
                (get (getViewportProps (ViewportState c) n) key)))"
    if "xp = [] \<and> distinct (map fst (getViewportProps (ViewportState c) n))"
  proof -
    have g: "get (assign (assign [] (getViewportProps (ViewportState c) n)) xp) key =
        get (getViewportProps (ViewportState c) n) key" for key
      using that by (simp add: assign_Nil get_assign_empty)
    show ?thesis unfolding a g using that by (simp add: keys_def)
  qed
  show "viewport_changes (snd (snd (updateViewport n xp xs vs c))) \<noteq> []"
    if "(xp = NO_TRANSITION_PROPS \<or> xp = LINEAR_TRANSITION_PROPS) \<and>
        onViewportChange c \<noteq> None \<and>
        get (getViewportProps (ViewportState c) vs) ''transitionDuration'' = VUndefined"
    using that transition_props_changed [of xp "getViewportProps (ViewportState c) vs"
        "getViewportProps (ViewportState c) n"]
    by (simp add: viewport_changes_updateViewport)
qed

lemma example_viewportProps_5:
  "viewportProps (fresh_viewState
     (map_controls (viewport_options [(''zoom'', VNum (Fin 5))] f None)))
   = [(''zoom'', VNum (Fin 5))]"
  by (cases f)
     (simp_all add: fresh_viewState_MapState [OF map_controls_fields(1)] map_controls_fields
      new_MapState_def options_obj_def viewport_options_def empty_options_def toggle_prop_def
      assign_def VIEWPORT_PROPS_KEYS_def)

text \<open>
  C3 as stated fails: a wheel event with \<open>delta = 0\<close> on a map-like state with zoom 5
  leaves every field of the ViewportProps as it was, and \<open>onViewportChange\<close> is
  invoked all the same.
\<close>

theorem unchanged_props_callback_counterexample:
  "viewport_changes (snd (snd (handleEvent (gesture ''wheel'')
      (map_controls (viewport_options [(''zoom'', VNum (Fin 5))] (Some 1) None))))) \<noteq> []
   \<and> \<not> viewport_changed
         (getViewportProps (MapState inert_operations)
            (fresh_viewState
               (map_controls (viewport_options [(''zoom'', VNum (Fin 5))] (Some 1) None))))
         (getViewportProps (MapState inert_operations)
            (zoom (MapState inert_operations) (getCenter (gesture ''wheel''))
               (onWheel_scale (delta (gesture ''wheel'')))
               (fresh_viewState
                  (map_controls (viewport_options [(''zoom'', VNum (Fin 5))] (Some 1) None)))))"
proof -
  let ?c = "map_controls (viewport_options [(''zoom'', VNum (Fin 5))] (Some 1) None)"
  let ?e = "gesture ''wheel''"
  let ?c1 = "?c\<lparr>viewState := Some (fresh_viewState ?c)\<rparr>"
  have d0: "delta ?e = 0" by (simp add: gesture_def)
  have e: "ev_type ?e = ''wheel''" by (simp add: gesture_def)
  have h: "handleEvent ?e ?c =
      updateViewport (zoom (ViewportState ?c1) (getCenter ?e) (onWheel_scale (delta ?e)) (fresh_viewState ?c))
        NO_TRANSITION_PROPS [] (fresh_viewState ?c) ?c1"
    using e example_toggles(1) by (simp add: handleEvent_wheel onWheel_def Let_def)
  have old: "get (getViewportProps (ViewportState ?c1) (fresh_viewState ?c)) ''transitionDuration''
      = VUndefined"
    by (simp add: map_controls_fields MapState_fields example_viewportProps_5 get_def)
  have f: "onViewportChange ?c1 \<noteq> None" by (simp add: example_callback)
  have inv: "viewport_changes (snd (snd (handleEvent ?e ?c))) \<noteq> []"
    unfolding h
    using transition_props_changed [of NO_TRANSITION_PROPS
        "getViewportProps (ViewportState ?c1) (fresh_viewState ?c)", OF _ old] f
    by (simp add: viewport_changes_updateViewport)
  have same: "\<not> viewport_changed
         (getViewportProps (MapState inert_operations) (fresh_viewState ?c))
         (getViewportProps (MapState inert_operations)
            (zoom (MapState inert_operations) (getCenter ?e) (onWheel_scale (delta ?e))
               (fresh_viewState ?c)))"
    by (simp add: MapState_fields MapState_zoom_def example_viewportProps_5 d0 onWheel_scale_0
        ToNumber_def get_def viewport_changed_def keys_def strict_neq_def)
  show ?thesis using inv same by blast
qed

theorem viewport_change_iff_merged_diff_witness:
  "onViewportChange
     (map_controls (viewport_options [(''zoom'', VNum (Fin 5))] (Some 1) None)) \<noteq> None \<and>
   get (getViewportProps (MapState inert_operations)
          (fresh_viewState
             (map_controls (viewport_options [(''zoom'', VNum (Fin 5))] (Some 1) None))))
     ''transitionDuration'' = VUndefined \<and>
   viewport_changes (snd (snd (updateViewport
      (fresh_viewState (map_controls (viewport_options [(''zoom'', VNum (Fin 5))] (Some 1) None)))
      NO_TRANSITION_PROPS []
      (fresh_viewState (map_controls (viewport_options [(''zoom'', VNum (Fin 5))] (Some 1) None)))
      (map_controls (viewport_options [(''zoom'', VNum (Fin 5))] (Some 1) None))))) =
     [[(''zoom'', VNum (Fin 5)), (''transitionDuration'', VNum (Fin 0))]] \<and>
   viewport_changes (snd (snd (updateViewport
      (fresh_viewState (map_controls (viewport_options [(''zoom'', VNum (Fin 5))] (Some 1) None)))
      [] []
      (fresh_viewState (map_controls (viewport_options [(''zoom'', VNum (Fin 5))] (Some 1) None)))
      (map_controls (viewport_options [(''zoom'', VNum (Fin 5))] (Some 1) None))))) = []"
proof -
  let ?c = "map_controls (viewport_options [(''zoom'', VNum (Fin 5))] (Some 1) None)"
  let ?vs = "fresh_viewState ?c"
  have f: "onViewportChange ?c \<noteq> None" by (simp add: example_callback)
  have cls: "ViewportState ?c = MapState inert_operations" by (rule map_controls_fields(1))
  have old: "get (getViewportProps (MapState inert_operations) ?vs) ''transitionDuration''
      = VUndefined"
    by (simp add: MapState_fields example_viewportProps_5 get_def)
  have old': "get (getViewportProps (ViewportState ?c) ?vs) ''transitionDuration'' = VUndefined"
    using old by (simp only: cls)
  note W1 = viewport_change_iff_merged_diff [of ?vs NO_TRANSITION_PROPS "[]" ?vs ?c]
  have ne: "viewport_changes (snd (snd (updateViewport ?vs NO_TRANSITION_PROPS [] ?vs ?c))) \<noteq> []"
    using W1 [THEN conjunct2, THEN conjunct2, THEN conjunct2] f old' by blast
  have m: "assign (assign [] (getViewportProps (ViewportState ?c) ?vs)) NO_TRANSITION_PROPS =
      [(''zoom'', VNum (Fin 5)), (''transitionDuration'', VNum (Fin 0))]"
    by (simp add: map_controls_fields MapState_fields example_viewportProps_5 NO_TRANSITION_PROPS_def assign_def)
  have a: "viewport_changes (snd (snd (updateViewport ?vs NO_TRANSITION_PROPS [] ?vs ?c))) =
      [[(''zoom'', VNum (Fin 5)), (''transitionDuration'', VNum (Fin 0))]]"
    using W1 [THEN conjunct2, THEN conjunct1] ne unfolding m by blast
  note W2 = viewport_change_iff_merged_diff [of ?vs "[]" "[]" ?vs ?c]
  have d: "distinct (map fst (getViewportProps (ViewportState ?c) ?vs))"
    by (simp add: map_controls_fields MapState_fields example_viewportProps_5)
  have nodiff: "\<not> (\<exists>key \<in> set (keys (getViewportProps (ViewportState ?c) ?vs)).
      strict_neq (get (getViewportProps (ViewportState ?c) ?vs) key)
        (get (getViewportProps (ViewportState ?c) ?vs) key))"
    by (simp add: map_controls_fields MapState_fields example_viewportProps_5 keys_def strict_neq_def get_def)
  have b: "viewport_changes (snd (snd (updateViewport ?vs [] [] ?vs ?c))) = []"
    using W2 [THEN conjunct2, THEN conjunct2, THEN conjunct1] d nodiff by blast
  show ?thesis using f old a b by blast
qed

section \<open>Start and end events\<close>





end
